theory Spec2Isabelle
  imports Main
begin

section \<open>Errors, panics and results\<close>

text \<open>
  A Go \<open>error\<close> value is opaque to the code under study; the constructors name the
  taxonomy the specification uses, plus one for decoding failures.
\<close>

datatype error =
    AuthError string
  | ConnectionError string
  | FetchError string
  | NotFoundError string
  | DecodeError string

text \<open>
  A Go function either returns normally (a value, or a non-nil \<open>error\<close>) or panics.
  \<open>PanicError e\<close> is \<open>log.Panic(e)\<close>; the other two are run-time panics.
\<close>

datatype panic = PanicError error | NilDereference | IndexOutOfRange

datatype 'a result = Ok 'a | Err error | Panic panic

type_synonym bytes = string

text \<open>A \<open>uuid.UUID\<close> is represented by the text its \<open>String()\<close> method prints.\<close>

type_synonym uuid = string

section \<open>Package accounting: contacts\<close>

text \<open>
  \<open>Contact\<close> carries the fields of the Go struct whose types are strings and booleans.
  The fields whose types are declared in other files of the package
  (\<open>ContactPersons\<close>, \<open>Addresses\<close>, \<open>Phones\<close>, the tracking categories,
  \<open>ContactGroups\<close>, \<open>BatchPayments\<close>) and the floating point ones
  (\<open>Discount\<close>, \<open>Balances\<close>) live in the extension part of the record, so every
  function below is stated for \<open>'m Contact_scheme\<close>.
\<close>

record Contact =
  ContactID :: string
  ContactNumber :: string
  AccountNumber :: string
  ContactStatus :: string
  Name :: string
  FirstName :: string
  LastName :: string
  EmailAddress :: string
  SkypeUserName :: string
  BankAccountDetails :: string
  TaxNumber :: string
  AccountsReceivableTaxType :: string
  AccountsPayableTaxType :: string
  IsSupplier :: bool
  IsCustomer :: bool
  DefaultCurrency :: string
  XeroNetworkKey :: string
  SalesDefaultAccountCode :: string
  PurchasesDefaultAccountCode :: string
  TrackingCategoryName :: string
  TrackingCategoryOption :: string
  UpdatedDateUTC :: string
  Website :: string
  HasAttachments :: bool

record 'm Contacts =
  Contacts :: "'m Contact_scheme list"

section \<open>Package accounting: accounts\<close>

record Account =
  Code :: string
  Name :: string
  Type :: string
  BankAccountNumber :: string
  Status :: string
  Description :: string
  BankAccountType :: string
  CurrencyCode :: string
  TaxType :: string
  EnablePaymentsToAccount :: bool
  ShowInExpenseClaims :: bool
  AccountID :: string
  Class :: string
  SystemAccount :: string
  ReportingCode :: string
  ReportingCodeName :: string
  HasAttachments :: bool
  UpdatedDateUTC :: string

record Accounts =
  Accounts :: "Account list"

section \<open>What the accounting package calls\<close>

text \<open>
  Package \<open>helpers\<close> is not among the sources, so its functions are parameters.
  The four request functions talk to the remote platform through the client \<open>'cl\<close>;
  they take and return the state \<open>'s\<close> of everything outside the function (the
  platform, the token store behind the client). A \<open>nil\<close> map is \<open>None\<close>.
  \<open>DotNetJSONTimeToRFC3339\<close> returns a Go pair: the string, and the error or \<open>nil\<close>.
\<close>

record ('cl, 's) helpers =
  Find :: "'cl \<Rightarrow> string \<Rightarrow> (string \<rightharpoonup> string) option \<Rightarrow> (string \<rightharpoonup> string) option
             \<Rightarrow> 's \<Rightarrow> bytes result \<times> 's"
  Create :: "'cl \<Rightarrow> string \<Rightarrow> bytes \<Rightarrow> 's \<Rightarrow> bytes result \<times> 's"
  Update :: "'cl \<Rightarrow> string \<Rightarrow> bytes \<Rightarrow> 's \<Rightarrow> bytes result \<times> 's"
  Remove :: "'cl \<Rightarrow> string \<Rightarrow> 's \<Rightarrow> bytes result \<times> 's"
  DotNetJSONTimeToRFC3339 :: "string \<Rightarrow> bool \<Rightarrow> string \<times> error option"

text \<open>
  \<open>encoding/json\<close> at the two collection types. \<open>Unmarshal\<close> fills a pointer, which
  stays \<open>nil\<close> (\<open>None\<close>) when the document is \<open>null\<close>.
\<close>

record 'm json =
  Unmarshal_Contacts :: "bytes \<Rightarrow> error + 'm Contacts option"
  Marshal_Contacts :: "'m Contacts \<Rightarrow> error + bytes"
  Unmarshal_Accounts :: "bytes \<Rightarrow> error + Accounts option"
  Marshal_Accounts :: "Accounts \<Rightarrow> error + bytes"

definition contactsURL :: string where
  "contactsURL = ''https://api.xero.com/api.xro/2.0/Contacts''"

definition accountsURL :: string where
  "accountsURL = ''https://api.xero.com/api.xro/2.0/Accounts''"

subsection \<open>convertDates\<close>

text \<open>
  The loop \<open>for n := len(c.Contacts) - 1; n >= 0; n--\<close>, from the index \<open>n\<close> on.
  The tuple assignment stores the returned string in the element before the error is
  looked at. The result is the returned error (\<open>Ok ()\<close> for \<open>nil\<close>) and the slice as
  the loop leaves it.
\<close>

function Contacts_convertDates_from ::
  "(string \<Rightarrow> bool \<Rightarrow> string \<times> error option) \<Rightarrow> 'm Contact_scheme list \<Rightarrow> int
     \<Rightarrow> unit result \<times> 'm Contact_scheme list" where
  "Contacts_convertDates_from conv cs n =
     (if 0 \<le> n then
        (if nat n < length cs then
           (case conv (Contact.UpdatedDateUTC (cs ! nat n)) True of
              (s, err) \<Rightarrow>
                (let cs' = cs[nat n := (cs ! nat n)\<lparr>Contact.UpdatedDateUTC := s\<rparr>] in
                 (case err of
                    Some e \<Rightarrow> (Err e, cs')
                  | None \<Rightarrow> Contacts_convertDates_from conv cs' (n - 1))))
         else (Panic IndexOutOfRange, cs))
      else (Ok (), cs))"
  by pat_completeness auto
termination
  by (relation "measure (\<lambda>(conv, cs, n). nat (n + 1))") auto

definition Contacts_convertDates ::
  "(string \<Rightarrow> bool \<Rightarrow> string \<times> error option) \<Rightarrow> 'm Contacts option
     \<Rightarrow> unit result \<times> 'm Contacts option" where
  "Contacts_convertDates conv c =
     (case c of
        None \<Rightarrow> (Panic NilDereference, None)
      | Some r \<Rightarrow>
          (case Contacts_convertDates_from conv (Contacts r) (int (length (Contacts r)) - 1) of
             (res, cs') \<Rightarrow> (res, Some (r\<lparr>Contacts := cs'\<rparr>))))"

function Accounts_convertDates_from ::
  "(string \<Rightarrow> bool \<Rightarrow> string \<times> error option) \<Rightarrow> Account list \<Rightarrow> int
     \<Rightarrow> unit result \<times> Account list" where
  "Accounts_convertDates_from conv as n =
     (if 0 \<le> n then
        (if nat n < length as then
           (case conv (Account.UpdatedDateUTC (as ! nat n)) True of
              (s, err) \<Rightarrow>
                (let as' = as[nat n := (as ! nat n)\<lparr>Account.UpdatedDateUTC := s\<rparr>] in
                 (case err of
                    Some e \<Rightarrow> (Err e, as')
                  | None \<Rightarrow> Accounts_convertDates_from conv as' (n - 1))))
         else (Panic IndexOutOfRange, as))
      else (Ok (), as))"
  by pat_completeness auto
termination
  by (relation "measure (\<lambda>(conv, as, n). nat (n + 1))") auto

definition Accounts_convertDates ::
  "(string \<Rightarrow> bool \<Rightarrow> string \<times> error option) \<Rightarrow> Accounts option
     \<Rightarrow> unit result \<times> Accounts option" where
  "Accounts_convertDates conv a =
     (case a of
        None \<Rightarrow> (Panic NilDereference, None)
      | Some r \<Rightarrow>
          (case Accounts_convertDates_from conv (Accounts r) (int (length (Accounts r)) - 1) of
             (res, as') \<Rightarrow> (res, Some (r\<lparr>Accounts := as'\<rparr>))))"

subsection \<open>unmarshalContact, unmarshalAccount\<close>

definition unmarshalContact ::
  "('cl, 's) helpers \<Rightarrow> 'm json \<Rightarrow> bytes \<Rightarrow> 'm Contacts option result" where
  "unmarshalContact h js contactResponseBytes =
     (case Unmarshal_Contacts js contactResponseBytes of
        Inl err \<Rightarrow> Err err
      | Inr contactResponse \<Rightarrow>
          (case Contacts_convertDates (DotNetJSONTimeToRFC3339 h) contactResponse of
             (Panic p, _) \<Rightarrow> Panic p
           | (Err err, _) \<Rightarrow> Err err
           | (Ok _, contactResponse') \<Rightarrow> Ok contactResponse'))"

definition unmarshalAccount ::
  "('cl, 's) helpers \<Rightarrow> 'm json \<Rightarrow> bytes \<Rightarrow> Accounts option result" where
  "unmarshalAccount h js accountResponseBytes =
     (case Unmarshal_Accounts js accountResponseBytes of
        Inl err \<Rightarrow> Err err
      | Inr accountResponse \<Rightarrow>
          (case Accounts_convertDates (DotNetJSONTimeToRFC3339 h) accountResponse of
             (Panic p, _) \<Rightarrow> Panic p
           | (Err err, _) \<Rightarrow> Err err
           | (Ok _, accountResponse') \<Rightarrow> Ok accountResponse'))"

subsection \<open>The exported functions of contact.go\<close>

definition FindContacts ::
  "('cl, 's) helpers \<Rightarrow> 'm json \<Rightarrow> 'cl \<Rightarrow> 's \<Rightarrow> 'm Contacts option result \<times> 's" where
  "FindContacts h js cl s =
     (case Find h cl contactsURL None None s of
        (Panic p, s') \<Rightarrow> (Panic p, s')
      | (Err err, s') \<Rightarrow> (Err err, s')
      | (Ok contactResponseBytes, s') \<Rightarrow> (unmarshalContact h js contactResponseBytes, s'))"

definition FindContact ::
  "('cl, 's) helpers \<Rightarrow> 'm json \<Rightarrow> 'cl \<Rightarrow> uuid \<Rightarrow> 's
     \<Rightarrow> 'm Contact_scheme option result \<times> 's" where
  "FindContact h js cl contactID s =
     (case Find h cl (contactsURL @ ''/'' @ contactID) None None s of
        (Panic p, s') \<Rightarrow> (Panic p, s')
      | (Err err, s') \<Rightarrow> (Err err, s')
      | (Ok contactResponseBytes, s') \<Rightarrow>
          (case unmarshalContact h js contactResponseBytes of
             Panic p \<Rightarrow> (Panic p, s')
           | Err err \<Rightarrow> (Err err, s')
           | Ok None \<Rightarrow> (Panic NilDereference, s')
           | Ok (Some c) \<Rightarrow>
               (if length (Contacts c) > 0 then (Ok (Some (Contacts c ! 0)), s')
                else (Ok None, s'))))"

definition Contacts_Create ::
  "('cl, 's) helpers \<Rightarrow> 'm json \<Rightarrow> 'm Contacts \<Rightarrow> 'cl \<Rightarrow> 's \<Rightarrow> 'm Contacts option result \<times> 's" where
  "Contacts_Create h js c cl s =
     (case Marshal_Contacts js c of
        Inl err \<Rightarrow> (Err err, s)
      | Inr buf \<Rightarrow>
          (case Create h cl contactsURL buf s of
             (Panic p, s') \<Rightarrow> (Panic p, s')
           | (Err err, s') \<Rightarrow> (Err err, s')
           | (Ok contactResponseBytes, s') \<Rightarrow> (unmarshalContact h js contactResponseBytes, s')))"

text \<open>
  \<open>Update\<close> has a pointer receiver. The second component of the result is the receiver
  as the call leaves it: the body copies \<open>*c\<close> into a fresh collection and never assigns
  through \<open>c\<close>.
\<close>

definition Contact_Update ::
  "('cl, 's) helpers \<Rightarrow> 'm json \<Rightarrow> 'm Contact_scheme \<Rightarrow> 'cl \<Rightarrow> 's
     \<Rightarrow> ('m Contacts option result \<times> 's) \<times> 'm Contact_scheme" where
  "Contact_Update h js c cl s =
     (let cn = \<lparr>Contacts = [c]\<rparr> in
      (case Marshal_Contacts js cn of
         Inl err \<Rightarrow> ((Err err, s), c)
       | Inr buf \<Rightarrow>
           (case Update h cl (contactsURL @ ''/'' @ ContactID c) buf s of
              (Panic p, s') \<Rightarrow> ((Panic p, s'), c)
            | (Err err, s') \<Rightarrow> ((Err err, s'), c)
            | (Ok contactResponseBytes, s') \<Rightarrow>
                ((unmarshalContact h js contactResponseBytes, s'), c))))"

subsection \<open>The exported functions of account.go\<close>

text \<open>
  \<open>modifiedSince.Format(time.RFC3339)\<close> belongs to the standard library; the formatted
  text is passed in.
\<close>

definition FindAccountsModifiedSince ::
  "('cl, 's) helpers \<Rightarrow> 'm json \<Rightarrow> 'cl \<Rightarrow> string \<Rightarrow> (string \<rightharpoonup> string) option \<Rightarrow> 's
     \<Rightarrow> Accounts option result \<times> 's" where
  "FindAccountsModifiedSince h js cl modifiedSince queryParameters s =
     (let additionalHeaders = Map.empty(''If-Modified-Since'' \<mapsto> modifiedSince) in
      (case Find h cl accountsURL (Some additionalHeaders) queryParameters s of
         (Panic p, s') \<Rightarrow> (Panic p, s')
       | (Err err, s') \<Rightarrow> (Err err, s')
       | (Ok accountResponseBytes, s') \<Rightarrow> (unmarshalAccount h js accountResponseBytes, s')))"

definition FindAccounts ::
  "('cl, 's) helpers \<Rightarrow> 'm json \<Rightarrow> 'cl \<Rightarrow> (string \<rightharpoonup> string) option \<Rightarrow> 's
     \<Rightarrow> Accounts option result \<times> 's" where
  "FindAccounts h js cl queryParameters s =
     (case Find h cl accountsURL None queryParameters s of
        (Panic p, s') \<Rightarrow> (Panic p, s')
      | (Err err, s') \<Rightarrow> (Err err, s')
      | (Ok accountResponseBytes, s') \<Rightarrow> (unmarshalAccount h js accountResponseBytes, s'))"

definition FindAccount ::
  "('cl, 's) helpers \<Rightarrow> 'm json \<Rightarrow> 'cl \<Rightarrow> uuid \<Rightarrow> 's \<Rightarrow> Account option result \<times> 's" where
  "FindAccount h js cl accountID s =
     (case Find h cl (accountsURL @ ''/'' @ accountID) None None s of
        (Panic p, s') \<Rightarrow> (Panic p, s')
      | (Err err, s') \<Rightarrow> (Err err, s')
      | (Ok accountResponseBytes, s') \<Rightarrow>
          (case unmarshalAccount h js accountResponseBytes of
             Panic p \<Rightarrow> (Panic p, s')
           | Err err \<Rightarrow> (Err err, s')
           | Ok None \<Rightarrow> (Panic NilDereference, s')
           | Ok (Some a) \<Rightarrow>
               (if length (Accounts a) > 0 then (Ok (Some (Accounts a ! 0)), s')
                else (Ok None, s'))))"

definition RemoveAccount ::
  "('cl, 's) helpers \<Rightarrow> 'm json \<Rightarrow> 'cl \<Rightarrow> uuid \<Rightarrow> 's \<Rightarrow> Accounts option result \<times> 's" where
  "RemoveAccount h js cl accountID s =
     (case Remove h cl (accountsURL @ ''/'' @ accountID) s of
        (Panic p, s') \<Rightarrow> (Panic p, s')
      | (Err err, s') \<Rightarrow> (Err err, s')
      | (Ok accountResponseBytes, s') \<Rightarrow> (unmarshalAccount h js accountResponseBytes, s'))"

definition Accounts_Create ::
  "('cl, 's) helpers \<Rightarrow> 'm json \<Rightarrow> Accounts \<Rightarrow> 'cl \<Rightarrow> 's \<Rightarrow> Accounts option result \<times> 's" where
  "Accounts_Create h js a cl s =
     (case Marshal_Accounts js a of
        Inl err \<Rightarrow> (Err err, s)
      | Inr buf \<Rightarrow>
          (case Create h cl accountsURL buf s of
             (Panic p, s') \<Rightarrow> (Panic p, s')
           | (Err err, s') \<Rightarrow> (Err err, s')
           | (Ok accountResponseBytes, s') \<Rightarrow> (unmarshalAccount h js accountResponseBytes, s')))"

definition Account_Update ::
  "('cl, 's) helpers \<Rightarrow> 'm json \<Rightarrow> Account \<Rightarrow> 'cl \<Rightarrow> 's
     \<Rightarrow> (Accounts option result \<times> 's) \<times> Account" where
  "Account_Update h js a cl s =
     (let acc = \<lparr>Accounts = [a]\<rparr> in
      (case Marshal_Accounts js acc of
         Inl err \<Rightarrow> ((Err err, s), a)
       | Inr buf \<Rightarrow>
           (case Update h cl (accountsURL @ ''/'' @ AccountID a) buf s of
              (Panic p, s') \<Rightarrow> ((Panic p, s'), a)
            | (Err err, s') \<Rightarrow> ((Err err, s'), a)
            | (Ok accountResponseBytes, s') \<Rightarrow>
                ((unmarshalAccount h js accountResponseBytes, s'), a))))"
section \<open>The OAuth2 token and the session\<close>

text \<open>
  \<open>oauth2.Token\<close>: access token, token type, refresh token and expiry (seconds since the
  epoch). A \<open>*oauth2.Token\<close> is a \<open>Token option\<close>.
\<close>

record Token =
  AccessToken :: string
  TokenType :: string
  RefreshToken :: string
  Expiry :: int

text \<open>
  \<open>auth.Session\<close> as the handlers build it. Its field \<open>Repo\<close> always holds the one
  global store, which is the \<open>repo\<close> component of the state below.
\<close>

record Session =
  Token :: "Token option"
  UserID :: uuid
  TenantID :: uuid

definition uuid_Nil :: uuid where
  "uuid_Nil = ''00000000-0000-0000-0000-000000000000''"

text \<open>\<open>connection.Tenant\<close>; the handlers read its \<open>TenantID\<close> only.\<close>

record Tenant =
  TenantID :: uuid

text \<open>
  The \<open>*http.Client\<close> that \<open>c.Client(&auth.Session{...})\<close> returns is identified with
  the session it is bound to.
\<close>

datatype client = Client Session

section \<open>The token store\<close>

text \<open>
  Modelled from the spec: \<open>NewRepository\<close> and the methods of \<open>auth.Repository\<close> are not
  among the sources. Section 4.1: \<open>CreateSession\<close> stores a token keyed by the user and
  overwrites silently; \<open>GetSession\<close> returns the stored token or a not-found signal;
  \<open>UpdateSession\<close> replaces the stored token and fails with \<open>NotFoundError\<close> when the
  user has no session. Each returns a Go pair or error as the handlers receive it.
\<close>

definition GetSession :: "(uuid \<rightharpoonup> Token) \<Rightarrow> uuid \<Rightarrow> Token option \<times> error option" where
  "GetSession r userID =
     (case r userID of
        Some token \<Rightarrow> (Some token, None)
      | None \<Rightarrow> (None, Some (NotFoundError userID)))"

text \<open>
  Modelled from the spec: \<open>CreateSession\<close> of the repository, not among the sources;
  section 4.1, an upsert that never fails.
\<close>

definition CreateSession :: "(uuid \<rightharpoonup> Token) \<Rightarrow> uuid \<Rightarrow> Token \<Rightarrow> (uuid \<rightharpoonup> Token) \<times> error option" where
  "CreateSession r userID token = (r(userID \<mapsto> token), None)"

text \<open>
  Modelled from the spec: \<open>UpdateSession\<close> of the repository, not among the sources;
  section 4.1, it replaces the token of an existing session and fails with
  \<open>NotFoundError\<close> otherwise.
\<close>

definition UpdateSession :: "(uuid \<rightharpoonup> Token) \<Rightarrow> uuid \<Rightarrow> Token \<Rightarrow> (uuid \<rightharpoonup> Token) \<times> error option" where
  "UpdateSession r userID newToken =
     (case r userID of
        Some _ \<Rightarrow> (r(userID \<mapsto> newToken), None)
      | None \<Rightarrow> (r, Some (NotFoundError userID)))"

section \<open>The web application\<close>

subsection \<open>State, calls and responses\<close>

text \<open>
  The state a handler runs in: the global \<open>repo\<close>, the remote platform \<open>world\<close> (opaque),
  and \<open>calls\<close>, the record of the calls the handlers made to the provider, the tenant
  resolver and the resource functions, each with how it came back.
\<close>

datatype resource =
    ContactsRes | InvoicesRes | OrganisationsRes | AccountsRes | BankTransactionsRes
  | BankTransfersRes | BrandingThemesRes | ContactGroupsRes | CreditNotesRes | CurrenciesRes
  | EmployeesRes | InvoiceRemindersRes | ItemsRes

datatype call =
    Call_GetTokenFromCode string
  | Call_Refresh "Token option"
  | Call_GetTenants client
  | Call_Find resource client
  | Call_Create resource client

datatype status = Returned | Failed error | Crashed panic

datatype event = Event call status

record 'w state =
  repo :: "uuid \<rightharpoonup> Token"
  world :: 'w
  calls :: "event list"

text \<open>What a function reached through a client can touch: the store and the platform.\<close>

type_synonym 'w outside = "(uuid \<rightharpoonup> Token) \<times> 'w"

fun status_of :: "'a result \<Rightarrow> status" where
  "status_of (Ok _) = Returned"
| "status_of (Err e) = Failed e"
| "status_of (Panic p) = Crashed p"

text \<open>A method of the provider \<open>c\<close> runs on the platform only: the provider holds no store.\<close>

definition through_provider ::
  "('w \<Rightarrow> 'a result \<times> 'w) \<Rightarrow> call \<Rightarrow> 'w state \<Rightarrow> 'a result \<times> 'w state" where
  "through_provider f c s =
     (case f (world s) of
        (r, w') \<Rightarrow> (r, s\<lparr>world := w', calls := calls s @ [Event c (status_of r)]\<rparr>))"

definition through_client ::
  "('w outside \<Rightarrow> 'a result \<times> 'w outside) \<Rightarrow> call \<Rightarrow> 'w state \<Rightarrow> 'a result \<times> 'w state" where
  "through_client f c s =
     (case f (repo s, world s) of
        (r, (rp', w')) \<Rightarrow>
          (r, \<lparr>repo = rp', world = w', calls = calls s @ [Event c (status_of r)]\<rparr>))"

text \<open>
  The element types of the resources whose files are not among the sources.
\<close>

typedecl Invoice
typedecl Organisation
typedecl BankTransaction
typedecl BankTransfer
typedecl BrandingTheme
typedecl ContactGroup
typedecl CreditNote
typedecl Currency
typedecl Employee
typedecl InvoiceReminder
typedecl Item

text \<open>
  Everything the handlers call that is not among the sources: the provider \<open>c\<close>
  (\<open>GetAuthURL\<close>, \<open>GetTokenFromCode\<close>, \<open>Refresh\<close>), \<open>connection.GetTenants\<close>, package
  \<open>helpers\<close>, \<open>encoding/json\<close>, the finders of the other resources (at the \<open>nil\<close>
  arguments the handlers pass; the list is the collection field of the returned struct,
  \<open>None\<close> a \<open>nil\<close> pointer), \<open>uuid.NewV4\<close>, and the zero value of the contact fields that
  live in the extension.
\<close>

record ('m, 'w) env =
  GetAuthURL :: "string \<Rightarrow> string"
  GetTokenFromCode :: "string \<Rightarrow> 'w \<Rightarrow> Token result \<times> 'w"
  Refresh :: "Token option \<Rightarrow> 'w \<Rightarrow> Token result \<times> 'w"
  GetTenants :: "client \<Rightarrow> 'w outside \<Rightarrow> Tenant list result \<times> 'w outside"
  helpers :: "(client, 'w outside) helpers"
  json :: "'m json"
  FindInvoices :: "client \<Rightarrow> 'w outside \<Rightarrow> Invoice list option result \<times> 'w outside"
  FindOrganisations :: "client \<Rightarrow> 'w outside \<Rightarrow> Organisation list option result \<times> 'w outside"
  FindBankTransactions :: "client \<Rightarrow> 'w outside \<Rightarrow> BankTransaction list option result \<times> 'w outside"
  FindBankTransfers :: "client \<Rightarrow> 'w outside \<Rightarrow> BankTransfer list option result \<times> 'w outside"
  FindBrandingThemes :: "client \<Rightarrow> 'w outside \<Rightarrow> BrandingTheme list result \<times> 'w outside"
  FindContactGroups :: "client \<Rightarrow> 'w outside \<Rightarrow> ContactGroup list option result \<times> 'w outside"
  FindCreditNotes :: "client \<Rightarrow> 'w outside \<Rightarrow> CreditNote list option result \<times> 'w outside"
  FindCurrencies :: "client \<Rightarrow> 'w outside \<Rightarrow> Currency list option result \<times> 'w outside"
  FindEmployees :: "client \<Rightarrow> 'w outside \<Rightarrow> Employee list option result \<times> 'w outside"
  FindInvoiceReminders :: "client \<Rightarrow> 'w outside \<Rightarrow> InvoiceReminder list option result \<times> 'w outside"
  FindItems :: "client \<Rightarrow> 'w outside \<Rightarrow> Item list option result \<times> 'w outside"
  NewV4 :: "'w \<Rightarrow> uuid \<times> 'w"
  Contact_zero :: 'm

text \<open>The templates, by the names of the constants of the source.\<close>

datatype template =
    indexTemplate | connectedTemplate | contactsTemplate | invoicesTemplate
  | organisationsTemplate | accountsTemplate | bankTransactionsTemplate
  | bankTransfersTemplate | brandingThemesTemplate | contactGroupsTemplate
  | creditNotesTemplate | currenciesTemplate | employeesTemplate
  | invoiceRemindersTemplate | invoiceItemsTemplate

text \<open>What a handler hands to a template or to the JSON encoder.\<close>

datatype 'm data =
    TokenData "Token option"
  | TenantsData "Tenant list"
  | ContactsData "'m Contact_scheme list"
  | InvoicesData "Invoice list"
  | OrganisationsData "Organisation list"
  | AccountsData "Account list"
  | BankTransactionsData "BankTransaction list"
  | BankTransfersData "BankTransfer list"
  | BrandingThemesData "BrandingTheme list"
  | ContactGroupsData "ContactGroup list"
  | CreditNotesData "CreditNote list"
  | CurrenciesData "Currency list"
  | EmployeesData "Employee list"
  | InvoiceRemindersData "InvoiceReminder list"
  | InvoiceItemsData "Item list"

text \<open>
  What a handler writes: \<open>t.Execute(w, data)\<close>, \<open>http.Redirect(w, r, url, code)\<close>,
  \<open>json.NewEncoder(w).Encode(data)\<close>; \<open>NotFound\<close> is the router's answer to a path
  without a handler. A handler that panics writes nothing.
\<close>

datatype 'm response =
    Executed template "'m data"
  | Redirected string nat
  | Encoded "'m data"
  | NotFound

datatype 'm outcome = Responded "'m response" | Aborted panic

text \<open>
  The status line of the response: 200 unless the handler sets another code, and none at
  all when the handler panicked.
\<close>

fun status_code :: "'m outcome \<Rightarrow> nat option" where
  "status_code (Responded (Executed t d)) = Some 200"
| "status_code (Responded (Redirected url code)) = Some code"
| "status_code (Responded (Encoded d)) = Some 200"
| "status_code (Responded NotFound) = Some 404"
| "status_code (Aborted p) = None"

definition StatusFound :: nat where
  "StatusFound = 302"

text \<open>The loop \<open>for _, x := range xs\<close> whose body may panic; \<open>acc\<close> is what the body updates.\<close>

fun for_range ::
  "('x \<Rightarrow> 'acc \<Rightarrow> 's \<Rightarrow> (panic + 'acc) \<times> 's) \<Rightarrow> 'x list \<Rightarrow> 'acc \<Rightarrow> 's \<Rightarrow> (panic + 'acc) \<times> 's" where
  "for_range body [] acc s = (Inr acc, s)"
| "for_range body (x # xs) acc s =
     (case body x acc s of
        (Inl p, s') \<Rightarrow> (Inl p, s')
      | (Inr acc', s') \<Rightarrow> for_range body xs acc' s')"

definition GetTenants_call :: "('m, 'w) env \<Rightarrow> client \<Rightarrow> 'w state \<Rightarrow> Tenant list result \<times> 'w state" where
  "GetTenants_call env cl s = through_client (GetTenants env cl) (Call_GetTenants cl) s"

subsection \<open>The handlers\<close>

definition HomeHandler :: "('m, 'w) env \<Rightarrow> 'w state \<Rightarrow> 'm outcome \<times> 'w state" where
  "HomeHandler env s =
     (let se = fst (GetSession (repo s) uuid_Nil) in
      if se \<noteq> None then (Responded (Executed connectedTemplate (TokenData se)), s)
      else (Responded (Executed indexTemplate (TokenData se)), s))"

definition StartXeroAuthHandler :: "('m, 'w) env \<Rightarrow> 'w state \<Rightarrow> 'm outcome \<times> 'w state" where
  "StartXeroAuthHandler env s =
     (Responded (Redirected (GetAuthURL env ''uniq_state'') StatusFound), s)"

definition XeroAuthCallbackHandler ::
  "('m, 'w) env \<Rightarrow> string \<Rightarrow> 'w state \<Rightarrow> 'm outcome \<times> 'w state" where
  "XeroAuthCallbackHandler env code s =
     (case through_provider (GetTokenFromCode env code) (Call_GetTokenFromCode code) s of
        (Panic p, s1) \<Rightarrow> (Aborted p, s1)
      | (Err err, s1) \<Rightarrow> (Aborted (PanicError err), s1)
      | (Ok token, s1) \<Rightarrow>
          (let s2 = s1\<lparr>repo := fst (CreateSession (repo s1) uuid_Nil token)\<rparr> in
           (Responded (Executed connectedTemplate (TokenData (Some token))), s2)))"

definition XeroConnectionsHandler :: "('m, 'w) env \<Rightarrow> 'w state \<Rightarrow> 'm outcome \<times> 'w state" where
  "XeroConnectionsHandler env s =
     (let se = fst (GetSession (repo s) uuid_Nil) in
      (case GetTenants_call env (Client \<lparr>Token = se, UserID = uuid_Nil, TenantID = uuid_Nil\<rparr>) s of
         (Panic p, s1) \<Rightarrow> (Aborted p, s1)
       | (Err err, s1) \<Rightarrow> (Aborted (PanicError err), s1)
       | (Ok tenants, s1) \<Rightarrow> (Responded (Encoded (TenantsData tenants)), s1)))"

definition XeroRefreshTokenHandler :: "('m, 'w) env \<Rightarrow> 'w state \<Rightarrow> 'm outcome \<times> 'w state" where
  "XeroRefreshTokenHandler env s =
     (let se = fst (GetSession (repo s) uuid_Nil) in
      (case through_provider (Refresh env se) (Call_Refresh se) s of
         (Panic p, s1) \<Rightarrow> (Aborted p, s1)
       | (Err err, s1) \<Rightarrow> (Aborted (PanicError err), s1)
       | (Ok newToken, s1) \<Rightarrow>
           (let s2 = s1\<lparr>repo := fst (UpdateSession (repo s1) uuid_Nil newToken)\<rparr> in
            (Responded (Redirected ''/'' StatusFound), s2))))"

definition XeroContactsHandler :: "('m, 'w) env \<Rightarrow> 'w state \<Rightarrow> 'm outcome \<times> 'w state" where
  "XeroContactsHandler env s =
     (let se = fst (GetSession (repo s) uuid_Nil);
          cl = Client \<lparr>Token = se, UserID = uuid_Nil, TenantID = uuid_Nil\<rparr>;
          contacts = [] in
      (case GetTenants_call env cl s of
         (Panic p, s1) \<Rightarrow> (Aborted p, s1)
       | (Err err, s1) \<Rightarrow> (Aborted (PanicError err), s1)
       | (Ok tenants, s1) \<Rightarrow>
           (case for_range
              (\<lambda>tenant contacts s.
                 (let cl = Client \<lparr>Token = se, UserID = uuid_Nil,
                                   TenantID = Tenant.TenantID tenant\<rparr> in
                  case through_client (FindContacts (helpers env) (json env) cl)
                         (Call_Find ContactsRes cl) s of
                    (Panic p, s') \<Rightarrow> (Inl p, s')
                  | (Err err, s') \<Rightarrow> (Inl (PanicError err), s')
                  | (Ok None, s') \<Rightarrow> (Inl NilDereference, s')
                  | (Ok (Some c), s') \<Rightarrow> (Inr (contacts @ Contacts c), s')))
              tenants contacts s1 of
              (Inl p, s2) \<Rightarrow> (Aborted p, s2)
            | (Inr contacts, s2) \<Rightarrow>
                (Responded (Executed contactsTemplate (ContactsData contacts)), s2))))"

text \<open>
  The contact that \<open>XeroContactsCreateHandler\<close> sends: four fields set, the others at
  their zero values.
\<close>

definition dummy_Contact :: "'m \<Rightarrow> uuid \<Rightarrow> 'm Contact_scheme" where
  "dummy_Contact z contactID =
     \<lparr>ContactID = '''', ContactNumber = '''', AccountNumber = '''', ContactStatus = '''',
      Name = ''Test '' @ contactID, FirstName = ''Test FirstName'',
      LastName = ''Test LastName'', EmailAddress = ''Test Email '' @ contactID,
      SkypeUserName = '''', BankAccountDetails = '''', TaxNumber = '''',
      AccountsReceivableTaxType = '''', AccountsPayableTaxType = '''',
      IsSupplier = False, IsCustomer = False, DefaultCurrency = '''',
      XeroNetworkKey = '''', SalesDefaultAccountCode = '''',
      PurchasesDefaultAccountCode = '''', TrackingCategoryName = '''',
      TrackingCategoryOption = '''', UpdatedDateUTC = '''', Website = '''',
      HasAttachments = False, \<dots> = z\<rparr>"

definition XeroContactsCreateHandler :: "('m, 'w) env \<Rightarrow> 'w state \<Rightarrow> 'm outcome \<times> 'w state" where
  "XeroContactsCreateHandler env s =
     (let se = fst (GetSession (repo s) uuid_Nil) in
      (case NewV4 env (world s) of
         (contactID, w0) \<Rightarrow>
           (let s0 = s\<lparr>world := w0\<rparr>;
                contacts = \<lparr>Contacts = [dummy_Contact (Contact_zero env) contactID]\<rparr> in
            (case GetTenants_call env
                    (Client \<lparr>Token = se, UserID = uuid_Nil, TenantID = uuid_Nil\<rparr>) s0 of
               (Panic p, s1) \<Rightarrow> (Aborted p, s1)
             | (Err err, s1) \<Rightarrow> (Aborted (PanicError err), s1)
             | (Ok tenants, s1) \<Rightarrow>
                 (case tenants of
                    [] \<Rightarrow> (Aborted IndexOutOfRange, s1)
                  | tenant0 # _ \<Rightarrow>
                      (let cl = Client \<lparr>Token = se, UserID = uuid_Nil,
                                        TenantID = Tenant.TenantID tenant0\<rparr> in
                       case through_client
                              (Contacts_Create (helpers env) (json env) contacts cl)
                              (Call_Create ContactsRes cl) s1 of
                         (Panic p, s2) \<Rightarrow> (Aborted p, s2)
                       | (Err err, s2) \<Rightarrow> (Aborted (PanicError err), s2)
                       | (Ok _, s2) \<Rightarrow> (Responded (Redirected ''/'' StatusFound), s2)))))))"

definition XeroAccountsHandler :: "('m, 'w) env \<Rightarrow> 'w state \<Rightarrow> 'm outcome \<times> 'w state" where
  "XeroAccountsHandler env s =
     (let accounts = [];
          se = fst (GetSession (repo s) uuid_Nil) in
      (case GetTenants_call env (Client \<lparr>Token = se, UserID = uuid_Nil, TenantID = uuid_Nil\<rparr>) s of
         (Panic p, s1) \<Rightarrow> (Aborted p, s1)
       | (Err err, s1) \<Rightarrow> (Aborted (PanicError err), s1)
       | (Ok tenants, s1) \<Rightarrow>
           (case for_range
              (\<lambda>tenant accounts s.
                 (let cl = Client \<lparr>Token = se, UserID = uuid_Nil,
                                   TenantID = Tenant.TenantID tenant\<rparr> in
                  case through_client (FindAccounts (helpers env) (json env) cl None)
                         (Call_Find AccountsRes cl) s of
                    (Panic p, s') \<Rightarrow> (Inl p, s')
                  | (Err err, s') \<Rightarrow> (Inl (PanicError err), s')
                  | (Ok None, s') \<Rightarrow> (Inl NilDereference, s')
                  | (Ok (Some accs), s') \<Rightarrow> (Inr (accounts @ Accounts accs), s')))
              tenants accounts s1 of
              (Inl p, s2) \<Rightarrow> (Aborted p, s2)
            | (Inr accounts, s2) \<Rightarrow>
                (Responded (Executed accountsTemplate (AccountsData accounts)), s2))))"

definition XeroInvoicesHandler :: "('m, 'w) env \<Rightarrow> 'w state \<Rightarrow> 'm outcome \<times> 'w state" where
  "XeroInvoicesHandler env s =
     (let invoices = [];
          se = fst (GetSession (repo s) uuid_Nil) in
      (case GetTenants_call env (Client \<lparr>Token = se, UserID = uuid_Nil, TenantID = uuid_Nil\<rparr>) s of
         (Panic p, s1) \<Rightarrow> (Aborted p, s1)
       | (Err err, s1) \<Rightarrow> (Aborted (PanicError err), s1)
       | (Ok tenants, s1) \<Rightarrow>
           (case for_range
              (\<lambda>tenant invoices s.
                 (let cl = Client \<lparr>Token = se, UserID = uuid_Nil,
                                   TenantID = Tenant.TenantID tenant\<rparr> in
                  case through_client (FindInvoices env cl) (Call_Find InvoicesRes cl) s of
                    (Panic p, s') \<Rightarrow> (Inl p, s')
                  | (Err err, s') \<Rightarrow> (Inl (PanicError err), s')
                  | (Ok None, s') \<Rightarrow> (Inl NilDereference, s')
                  | (Ok (Some i), s') \<Rightarrow> (Inr (invoices @ i), s')))
              tenants invoices s1 of
              (Inl p, s2) \<Rightarrow> (Aborted p, s2)
            | (Inr invoices, s2) \<Rightarrow> (Responded (Executed invoicesTemplate (InvoicesData invoices)), s2))))"

definition XeroOrganisationsHandler :: "('m, 'w) env \<Rightarrow> 'w state \<Rightarrow> 'm outcome \<times> 'w state" where
  "XeroOrganisationsHandler env s =
     (let organisations = [];
          se = fst (GetSession (repo s) uuid_Nil) in
      (case GetTenants_call env (Client \<lparr>Token = se, UserID = uuid_Nil, TenantID = uuid_Nil\<rparr>) s of
         (Panic p, s1) \<Rightarrow> (Aborted p, s1)
       | (Err err, s1) \<Rightarrow> (Aborted (PanicError err), s1)
       | (Ok tenants, s1) \<Rightarrow>
           (case for_range
              (\<lambda>tenant organisations s.
                 (let cl = Client \<lparr>Token = se, UserID = uuid_Nil,
                                   TenantID = Tenant.TenantID tenant\<rparr> in
                  case through_client (FindOrganisations env cl) (Call_Find OrganisationsRes cl) s of
                    (Panic p, s') \<Rightarrow> (Inl p, s')
                  | (Err err, s') \<Rightarrow> (Inl (PanicError err), s')
                  | (Ok None, s') \<Rightarrow> (Inl NilDereference, s')
                  | (Ok (Some orgs), s') \<Rightarrow> (Inr (organisations @ orgs), s')))
              tenants organisations s1 of
              (Inl p, s2) \<Rightarrow> (Aborted p, s2)
            | (Inr organisations, s2) \<Rightarrow> (Responded (Executed organisationsTemplate (OrganisationsData organisations)), s2))))"

definition XeroBankTransactionsHandler :: "('m, 'w) env \<Rightarrow> 'w state \<Rightarrow> 'm outcome \<times> 'w state" where
  "XeroBankTransactionsHandler env s =
     (let bankTransactions = [];
          se = fst (GetSession (repo s) uuid_Nil) in
      (case GetTenants_call env (Client \<lparr>Token = se, UserID = uuid_Nil, TenantID = uuid_Nil\<rparr>) s of
         (Panic p, s1) \<Rightarrow> (Aborted p, s1)
       | (Err err, s1) \<Rightarrow> (Aborted (PanicError err), s1)
       | (Ok tenants, s1) \<Rightarrow>
           (case for_range
              (\<lambda>tenant bankTransactions s.
                 (let cl = Client \<lparr>Token = se, UserID = uuid_Nil,
                                   TenantID = Tenant.TenantID tenant\<rparr> in
                  case through_client (FindBankTransactions env cl) (Call_Find BankTransactionsRes cl) s of
                    (Panic p, s') \<Rightarrow> (Inl p, s')
                  | (Err err, s') \<Rightarrow> (Inl (PanicError err), s')
                  | (Ok None, s') \<Rightarrow> (Inl NilDereference, s')
                  | (Ok (Some bankTr), s') \<Rightarrow> (Inr (bankTransactions @ bankTr), s')))
              tenants bankTransactions s1 of
              (Inl p, s2) \<Rightarrow> (Aborted p, s2)
            | (Inr bankTransactions, s2) \<Rightarrow> (Responded (Executed bankTransactionsTemplate (BankTransactionsData bankTransactions)), s2))))"

definition XeroBankTransfersHandler :: "('m, 'w) env \<Rightarrow> 'w state \<Rightarrow> 'm outcome \<times> 'w state" where
  "XeroBankTransfersHandler env s =
     (let bankTransfers = [];
          se = fst (GetSession (repo s) uuid_Nil) in
      (case GetTenants_call env (Client \<lparr>Token = se, UserID = uuid_Nil, TenantID = uuid_Nil\<rparr>) s of
         (Panic p, s1) \<Rightarrow> (Aborted p, s1)
       | (Err err, s1) \<Rightarrow> (Aborted (PanicError err), s1)
       | (Ok tenants, s1) \<Rightarrow>
           (case for_range
              (\<lambda>tenant bankTransfers s.
                 (let cl = Client \<lparr>Token = se, UserID = uuid_Nil,
                                   TenantID = Tenant.TenantID tenant\<rparr> in
                  case through_client (FindBankTransfers env cl) (Call_Find BankTransfersRes cl) s of
                    (Panic p, s') \<Rightarrow> (Inl p, s')
                  | (Err err, s') \<Rightarrow> (Inl (PanicError err), s')
                  | (Ok None, s') \<Rightarrow> (Inl NilDereference, s')
                  | (Ok (Some bankTrns), s') \<Rightarrow> (Inr (bankTransfers @ bankTrns), s')))
              tenants bankTransfers s1 of
              (Inl p, s2) \<Rightarrow> (Aborted p, s2)
            | (Inr bankTransfers, s2) \<Rightarrow> (Responded (Executed bankTransfersTemplate (BankTransfersData bankTransfers)), s2))))"

definition XeroBrandingThemeHandler :: "('m, 'w) env \<Rightarrow> 'w state \<Rightarrow> 'm outcome \<times> 'w state" where
  "XeroBrandingThemeHandler env s =
     (let brandingThemes = [];
          se = fst (GetSession (repo s) uuid_Nil) in
      (case GetTenants_call env (Client \<lparr>Token = se, UserID = uuid_Nil, TenantID = uuid_Nil\<rparr>) s of
         (Panic p, s1) \<Rightarrow> (Aborted p, s1)
       | (Err err, s1) \<Rightarrow> (Aborted (PanicError err), s1)
       | (Ok tenants, s1) \<Rightarrow>
           (case for_range
              (\<lambda>tenant brandingThemes s.
                 (let cl = Client \<lparr>Token = se, UserID = uuid_Nil,
                                   TenantID = Tenant.TenantID tenant\<rparr> in
                  case through_client (FindBrandingThemes env cl) (Call_Find BrandingThemesRes cl) s of
                    (Panic p, s') \<Rightarrow> (Inl p, s')
                  | (Err err, s') \<Rightarrow> (Inl (PanicError err), s')
                  | (Ok themes, s') \<Rightarrow> (Inr (brandingThemes @ themes), s')))
              tenants brandingThemes s1 of
              (Inl p, s2) \<Rightarrow> (Aborted p, s2)
            | (Inr brandingThemes, s2) \<Rightarrow> (Responded (Executed brandingThemesTemplate (BrandingThemesData brandingThemes)), s2))))"

definition XeroContactGroupsHandler :: "('m, 'w) env \<Rightarrow> 'w state \<Rightarrow> 'm outcome \<times> 'w state" where
  "XeroContactGroupsHandler env s =
     (let contactGroups = [];
          se = fst (GetSession (repo s) uuid_Nil) in
      (case GetTenants_call env (Client \<lparr>Token = se, UserID = uuid_Nil, TenantID = uuid_Nil\<rparr>) s of
         (Panic p, s1) \<Rightarrow> (Aborted p, s1)
       | (Err err, s1) \<Rightarrow> (Aborted (PanicError err), s1)
       | (Ok tenants, s1) \<Rightarrow>
           (case for_range
              (\<lambda>tenant contactGroups s.
                 (let cl = Client \<lparr>Token = se, UserID = uuid_Nil,
                                   TenantID = Tenant.TenantID tenant\<rparr> in
                  case through_client (FindContactGroups env cl) (Call_Find ContactGroupsRes cl) s of
                    (Panic p, s') \<Rightarrow> (Inl p, s')
                  | (Err err, s') \<Rightarrow> (Inl (PanicError err), s')
                  | (Ok None, s') \<Rightarrow> (Inl NilDereference, s')
                  | (Ok (Some groups), s') \<Rightarrow> (Inr (contactGroups @ groups), s')))
              tenants contactGroups s1 of
              (Inl p, s2) \<Rightarrow> (Aborted p, s2)
            | (Inr contactGroups, s2) \<Rightarrow> (Responded (Executed contactGroupsTemplate (ContactGroupsData contactGroups)), s2))))"

definition XeroCreditNotesHandler :: "('m, 'w) env \<Rightarrow> 'w state \<Rightarrow> 'm outcome \<times> 'w state" where
  "XeroCreditNotesHandler env s =
     (let creditNotes = [];
          se = fst (GetSession (repo s) uuid_Nil) in
      (case GetTenants_call env (Client \<lparr>Token = se, UserID = uuid_Nil, TenantID = uuid_Nil\<rparr>) s of
         (Panic p, s1) \<Rightarrow> (Aborted p, s1)
       | (Err err, s1) \<Rightarrow> (Aborted (PanicError err), s1)
       | (Ok tenants, s1) \<Rightarrow>
           (case for_range
              (\<lambda>tenant creditNotes s.
                 (let cl = Client \<lparr>Token = se, UserID = uuid_Nil,
                                   TenantID = Tenant.TenantID tenant\<rparr> in
                  case through_client (FindCreditNotes env cl) (Call_Find CreditNotesRes cl) s of
                    (Panic p, s') \<Rightarrow> (Inl p, s')
                  | (Err err, s') \<Rightarrow> (Inl (PanicError err), s')
                  | (Ok None, s') \<Rightarrow> (Inl NilDereference, s')
                  | (Ok (Some notes), s') \<Rightarrow> (Inr (creditNotes @ notes), s')))
              tenants creditNotes s1 of
              (Inl p, s2) \<Rightarrow> (Aborted p, s2)
            | (Inr creditNotes, s2) \<Rightarrow> (Responded (Executed creditNotesTemplate (CreditNotesData creditNotes)), s2))))"

definition XeroCurrencyHandler :: "('m, 'w) env \<Rightarrow> 'w state \<Rightarrow> 'm outcome \<times> 'w state" where
  "XeroCurrencyHandler env s =
     (let currencies = [];
          se = fst (GetSession (repo s) uuid_Nil) in
      (case GetTenants_call env (Client \<lparr>Token = se, UserID = uuid_Nil, TenantID = uuid_Nil\<rparr>) s of
         (Panic p, s1) \<Rightarrow> (Aborted p, s1)
       | (Err err, s1) \<Rightarrow> (Aborted (PanicError err), s1)
       | (Ok tenants, s1) \<Rightarrow>
           (case for_range
              (\<lambda>tenant currencies s.
                 (let cl = Client \<lparr>Token = se, UserID = uuid_Nil,
                                   TenantID = Tenant.TenantID tenant\<rparr> in
                  case through_client (FindCurrencies env cl) (Call_Find CurrenciesRes cl) s of
                    (Panic p, s') \<Rightarrow> (Inl p, s')
                  | (Err err, s') \<Rightarrow> (Inl (PanicError err), s')
                  | (Ok None, s') \<Rightarrow> (Inl NilDereference, s')
                  | (Ok (Some c), s') \<Rightarrow> (Inr (currencies @ c), s')))
              tenants currencies s1 of
              (Inl p, s2) \<Rightarrow> (Aborted p, s2)
            | (Inr currencies, s2) \<Rightarrow> (Responded (Executed currenciesTemplate (CurrenciesData currencies)), s2))))"

definition XeroEmployeesHandler :: "('m, 'w) env \<Rightarrow> 'w state \<Rightarrow> 'm outcome \<times> 'w state" where
  "XeroEmployeesHandler env s =
     (let employees = [];
          se = fst (GetSession (repo s) uuid_Nil) in
      (case GetTenants_call env (Client \<lparr>Token = se, UserID = uuid_Nil, TenantID = uuid_Nil\<rparr>) s of
         (Panic p, s1) \<Rightarrow> (Aborted p, s1)
       | (Err err, s1) \<Rightarrow> (Aborted (PanicError err), s1)
       | (Ok tenants, s1) \<Rightarrow>
           (case for_range
              (\<lambda>tenant employees s.
                 (let cl = Client \<lparr>Token = se, UserID = uuid_Nil,
                                   TenantID = Tenant.TenantID tenant\<rparr> in
                  case through_client (FindEmployees env cl) (Call_Find EmployeesRes cl) s of
                    (Panic p, s') \<Rightarrow> (Inl p, s')
                  | (Err err, s') \<Rightarrow> (Inl (PanicError err), s')
                  | (Ok None, s') \<Rightarrow> (Inl NilDereference, s')
                  | (Ok (Some e), s') \<Rightarrow> (Inr (employees @ e), s')))
              tenants employees s1 of
              (Inl p, s2) \<Rightarrow> (Aborted p, s2)
            | (Inr employees, s2) \<Rightarrow> (Responded (Executed employeesTemplate (EmployeesData employees)), s2))))"

definition XeroInvoiceRemindersHandler :: "('m, 'w) env \<Rightarrow> 'w state \<Rightarrow> 'm outcome \<times> 'w state" where
  "XeroInvoiceRemindersHandler env s =
     (let reminders = [];
          se = fst (GetSession (repo s) uuid_Nil) in
      (case GetTenants_call env (Client \<lparr>Token = se, UserID = uuid_Nil, TenantID = uuid_Nil\<rparr>) s of
         (Panic p, s1) \<Rightarrow> (Aborted p, s1)
       | (Err err, s1) \<Rightarrow> (Aborted (PanicError err), s1)
       | (Ok tenants, s1) \<Rightarrow>
           (case for_range
              (\<lambda>tenant reminders s.
                 (let cl = Client \<lparr>Token = se, UserID = uuid_Nil,
                                   TenantID = Tenant.TenantID tenant\<rparr> in
                  case through_client (FindInvoiceReminders env cl) (Call_Find InvoiceRemindersRes cl) s of
                    (Panic p, s') \<Rightarrow> (Inl p, s')
                  | (Err err, s') \<Rightarrow> (Inl (PanicError err), s')
                  | (Ok None, s') \<Rightarrow> (Inl NilDereference, s')
                  | (Ok (Some rem), s') \<Rightarrow> (Inr (reminders @ rem), s')))
              tenants reminders s1 of
              (Inl p, s2) \<Rightarrow> (Aborted p, s2)
            | (Inr reminders, s2) \<Rightarrow> (Responded (Executed invoiceRemindersTemplate (InvoiceRemindersData reminders)), s2))))"

definition XeroInvoiceItemsHandler :: "('m, 'w) env \<Rightarrow> 'w state \<Rightarrow> 'm outcome \<times> 'w state" where
  "XeroInvoiceItemsHandler env s =
     (let items = [];
          se = fst (GetSession (repo s) uuid_Nil) in
      (case GetTenants_call env (Client \<lparr>Token = se, UserID = uuid_Nil, TenantID = uuid_Nil\<rparr>) s of
         (Panic p, s1) \<Rightarrow> (Aborted p, s1)
       | (Err err, s1) \<Rightarrow> (Aborted (PanicError err), s1)
       | (Ok tenants, s1) \<Rightarrow>
           (case for_range
              (\<lambda>tenant items s.
                 (let cl = Client \<lparr>Token = se, UserID = uuid_Nil,
                                   TenantID = Tenant.TenantID tenant\<rparr> in
                  case through_client (FindItems env cl) (Call_Find ItemsRes cl) s of
                    (Panic p, s') \<Rightarrow> (Inl p, s')
                  | (Err err, s') \<Rightarrow> (Inl (PanicError err), s')
                  | (Ok None, s') \<Rightarrow> (Inl NilDereference, s')
                  | (Ok (Some its), s') \<Rightarrow> (Inr (items @ its), s')))
              tenants items s1 of
              (Inl p, s2) \<Rightarrow> (Aborted p, s2)
            | (Inr items, s2) \<Rightarrow> (Responded (Executed invoiceItemsTemplate (InvoiceItemsData items)), s2))))"
subsection \<open>The router\<close>

text \<open>
  An incoming request: its path and its form values; \<open>r.FormValue(k)\<close> is the empty
  string when the key is absent. \<open>serve\<close> is the table that \<open>main\<close> registers with the
  router.
\<close>

record request =
  Path :: string
  Form :: "string \<rightharpoonup> string"

definition FormValue :: "request \<Rightarrow> string \<Rightarrow> string" where
  "FormValue r k = (case Form r k of Some v \<Rightarrow> v | None \<Rightarrow> '''')"

definition serve :: "('m, 'w) env \<Rightarrow> request \<Rightarrow> 'w state \<Rightarrow> 'm outcome \<times> 'w state" where
  "serve env r s =
     (if Path r = ''/'' then HomeHandler env s
      else if Path r = ''/auth/xero'' then StartXeroAuthHandler env s
      else if Path r = ''/auth/xero/callback'' then XeroAuthCallbackHandler env (FormValue r ''code'') s
      else if Path r = ''/connections'' then XeroConnectionsHandler env s
      else if Path r = ''/contacts'' then XeroContactsHandler env s
      else if Path r = ''/contacts/create'' then XeroContactsCreateHandler env s
      else if Path r = ''/invoices'' then XeroInvoicesHandler env s
      else if Path r = ''/refresh'' then XeroRefreshTokenHandler env s
      else if Path r = ''/organisations'' then XeroOrganisationsHandler env s
      else if Path r = ''/accounts'' then XeroAccountsHandler env s
      else if Path r = ''/bankTransactions'' then XeroBankTransactionsHandler env s
      else if Path r = ''/bankTransfers'' then XeroBankTransfersHandler env s
      else if Path r = ''/brandingThemes'' then XeroBrandingThemeHandler env s
      else if Path r = ''/contactGroups'' then XeroContactGroupsHandler env s
      else if Path r = ''/creditNotes'' then XeroCreditNotesHandler env s
      else if Path r = ''/currencies'' then XeroCurrencyHandler env s
      else if Path r = ''/employees'' then XeroEmployeesHandler env s
      else if Path r = ''/invoiceReminders'' then XeroInvoiceRemindersHandler env s
      else if Path r = ''/invoiceItems'' then XeroInvoiceItemsHandler env s
      else (Responded NotFound, s))"

section \<open>Date normalization\<close>

text \<open>
  Modelled from the spec: \<open>helpers.DotNetJSONTimeToRFC3339\<close> is not among the sources.
  Sections 6 and 8: a date field arrives in the legacy textual encoding
  \<open>/Date(1580000000000+0000)/\<close>, a count of milliseconds since the epoch followed by an
  optional offset, and is converted to the equivalent RFC3339 timestamp; normalizing an
  already normalized timestamp is a no-op or an explicit error. The flag is the one the
  callers pass (\<open>true\<close>: render in UTC); the specification describes no other
  rendering.
\<close>

definition is_digit :: "char \<Rightarrow> bool" where
  "is_digit c \<longleftrightarrow> c \<in> set ''0123456789''"

definition digit_value :: "char \<Rightarrow> nat" where
  "digit_value c = (of_char c :: nat) - 48"

definition digits_value :: "string \<Rightarrow> nat" where
  "digits_value ds = foldl (\<lambda>n c. 10 * n + digit_value c) 0 ds"

definition digit_char :: "nat \<Rightarrow> char" where
  "digit_char n = ''0123456789'' ! (n mod 10)"

text \<open>The decimal digits of a number, padded with zeros on the left to \<open>w\<close> places.\<close>

function padded :: "nat \<Rightarrow> nat \<Rightarrow> string" where
  "padded w n =
     (if w = 0 \<and> n = 0 then [] else padded (w - 1) (n div 10) @ [digit_char n])"
  by pat_completeness auto
termination
  by (relation "measure (\<lambda>(w, n). w + n)") auto

text \<open>
  Year, month and day of the day that lies \<open>z\<close> days after 1970-01-01, in the proleptic
  Gregorian calendar: the 400-year era and the day in it, the year in the era, the day
  in the year (years starting in March), the month.
\<close>

definition civil_from_mp :: "nat \<Rightarrow> nat \<Rightarrow> nat \<Rightarrow> nat \<times> nat \<times> nat" where
  "civil_from_mp y doy mp =
     (if mp < 10 then (y, mp + 3, doy + 1 - (153 * mp + 2) div 5)
      else (y + 1, mp - 9, doy + 1 - (153 * mp + 2) div 5))"

definition civil_from_yoe :: "nat \<Rightarrow> nat \<Rightarrow> nat \<Rightarrow> nat \<times> nat \<times> nat" where
  "civil_from_yoe era doe yoe =
     civil_from_mp (yoe + era * 400) (doe + yoe div 100 - 365 * yoe - yoe div 4)
       ((5 * (doe + yoe div 100 - 365 * yoe - yoe div 4) + 2) div 153)"

definition civil_from_doe :: "nat \<Rightarrow> nat \<Rightarrow> nat \<times> nat \<times> nat" where
  "civil_from_doe era doe =
     civil_from_yoe era doe ((doe + doe div 36524 - doe div 1460 - doe div 146096) div 365)"

definition civil_from_days :: "nat \<Rightarrow> nat \<times> nat \<times> nat" where
  "civil_from_days z = civil_from_doe ((z + 719468) div 146097) ((z + 719468) mod 146097)"

definition format_RFC3339 :: "nat \<Rightarrow> string" where
  "format_RFC3339 secs =
     (case civil_from_days (secs div 86400) of
        (y, m, d) \<Rightarrow>
          padded 4 y @ ''-'' @ padded 2 m @ ''-'' @ padded 2 d @ ''T''
          @ padded 2 (secs mod 86400 div 3600) @ '':''
          @ padded 2 (secs mod 3600 div 60) @ '':''
          @ padded 2 (secs mod 60) @ ''Z'')"

text \<open>What may follow the milliseconds: nothing, or a sign and a four-digit offset.\<close>

definition is_offset :: "string \<Rightarrow> bool" where
  "is_offset t \<longleftrightarrow>
     t = [] \<or> (length t = 5 \<and> hd t \<in> set ''+-'' \<and> list_all is_digit (tl t))"

text \<open>
  Modelled from the spec: the legacy encoding that the absent helper reads (section 8).
  The milliseconds of a text of the form \<open>/Date(\<close>, digits, an optional offset,
  \<open>)/\<close>; \<open>None\<close> for any other text.
\<close>

definition legacy_ms :: "string \<Rightarrow> nat option" where
  "legacy_ms jsonTime =
     (let body = drop 6 jsonTime;
          ms = takeWhile is_digit body;
          rest = dropWhile is_digit body
      in if take 6 jsonTime = ''/Date('' \<and> ms \<noteq> [] \<and> 2 \<le> length rest
            \<and> drop (length rest - 2) rest = '')/''
            \<and> is_offset (take (length rest - 2) rest)
         then Some (digits_value ms)
         else None)"

text \<open>
  Modelled from the spec: \<open>helpers.DotNetJSONTimeToRFC3339\<close>, not among the sources.
  A text in the legacy encoding becomes the RFC3339 timestamp of that instant in UTC.
  For any other text the specification leaves two ways open, a no-op or an explicit
  error; \<open>keep\<close> says for which texts the implementation takes the first.
\<close>

definition DotNetJSONTimeToRFC3339_spec ::
  "(string \<Rightarrow> bool) \<Rightarrow> string \<Rightarrow> bool \<Rightarrow> string \<times> error option" where
  "DotNetJSONTimeToRFC3339_spec keep jsonTime isUTC =
     (case legacy_ms jsonTime of
        Some ms \<Rightarrow> (format_RFC3339 (ms div 1000), None)
      | None \<Rightarrow>
          (if keep jsonTime then (jsonTime, None)
           else ('''', Some (DecodeError jsonTime))))"

text \<open>
  Modelled from the spec: one of the implementations it allows, which leaves an empty
  date as it is and refuses every other text that is not in the legacy encoding.
\<close>

definition keep_empty :: "string \<Rightarrow> bool" where
  "keep_empty jsonTime \<longleftrightarrow> jsonTime = []"

section \<open>The authenticated transport\<close>

text \<open>
  Modelled from the spec: \<open>Provider.Client\<close> and the transport inside the client it
  returns are not among the sources. Section 4.2: the transport attaches the current
  access token as a bearer credential to every outgoing request; before each request it
  checks the expiry of the token and, if it is expired, invokes \<open>Refresh\<close> and persists
  the new token via \<open>UpdateSession\<close> of the bound repository before proceeding. A
  failure to refresh or to persist is returned in place of the response, and so is the
  absence of a token (section 8: a request before any session exists is an
  \<open>AuthError\<close>). \<open>refresh\<close> is the provider's \<open>Refresh\<close>, \<open>send\<close> the underlying
  transport (the request leaves with the given bearer credential), \<open>now\<close> the clock.
  The third component of the result lists what the transport did, in order.
\<close>

datatype 'rq wire_event =
    Refreshed Token
  | Persisted uuid Token
  | Sent 'rq string

fun is_Refreshed :: "'rq wire_event \<Rightarrow> bool" where
  "is_Refreshed (Refreshed t) = True"
| "is_Refreshed _ = False"

fun is_Sent :: "'rq wire_event \<Rightarrow> bool" where
  "is_Sent (Sent rq b) = True"
| "is_Sent _ = False"

definition expired :: "int \<Rightarrow> Token \<Rightarrow> bool" where
  "expired now token \<longleftrightarrow> Expiry token < now"

text \<open>
  Modelled from the spec: one request through the transport of \<open>Provider.Client\<close>, not
  among the sources; section 4.2, items a and b.
\<close>

definition RoundTrip ::
  "(Token option \<Rightarrow> 'w \<Rightarrow> Token result \<times> 'w) \<Rightarrow> (string \<Rightarrow> 'rq \<Rightarrow> 'w \<Rightarrow> bytes result \<times> 'w) \<Rightarrow> int
     \<Rightarrow> Session \<Rightarrow> 'rq \<Rightarrow> 'w outside \<Rightarrow> (bytes result \<times> 'w outside) \<times> 'rq wire_event list" where
  "RoundTrip refresh send now session rq out =
     (case out of
        (rp, w) \<Rightarrow>
          (case Token session of
             None \<Rightarrow> ((Err (AuthError ''no token''), (rp, w)), [])
           | Some token \<Rightarrow>
               (if expired now token then
                  (case refresh (Some token) w of
                     (Panic p, w1) \<Rightarrow> ((Panic p, (rp, w1)), [Refreshed token])
                   | (Err err, w1) \<Rightarrow> ((Err err, (rp, w1)), [Refreshed token])
                   | (Ok newToken, w1) \<Rightarrow>
                       (case UpdateSession rp (UserID session) newToken of
                          (rp1, Some err) \<Rightarrow> ((Err err, (rp1, w1)), [Refreshed token])
                        | (rp1, None) \<Rightarrow>
                            (case send (AccessToken newToken) rq w1 of
                               (r, w2) \<Rightarrow>
                                 ((r, (rp1, w2)),
                                  [Refreshed token, Persisted (UserID session) newToken,
                                   Sent rq (AccessToken newToken)]))))
                else
                  (case send (AccessToken token) rq w of
                     (r, w1) \<Rightarrow> ((r, (rp, w1)), [Sent rq (AccessToken token)])))))"

section \<open>What the claims are stated with\<close>

subsection \<open>Normalized results\<close>

text \<open>
  \<open>r\<close> is the element \<open>d\<close> with its \<open>UpdatedDateUTC\<close> replaced by what the conversion
  returned for it, and the conversion reported no error.
\<close>

definition Contact_date_converted ::
  "(string \<Rightarrow> bool \<Rightarrow> string \<times> error option) \<Rightarrow> 'm Contact_scheme \<Rightarrow> 'm Contact_scheme \<Rightarrow> bool" where
  "Contact_date_converted conv d r \<longleftrightarrow>
     conv (Contact.UpdatedDateUTC d) True = (Contact.UpdatedDateUTC r, None) \<and>
     r = d\<lparr>Contact.UpdatedDateUTC := Contact.UpdatedDateUTC r\<rparr>"

definition Account_date_converted ::
  "(string \<Rightarrow> bool \<Rightarrow> string \<times> error option) \<Rightarrow> Account \<Rightarrow> Account \<Rightarrow> bool" where
  "Account_date_converted conv d r \<longleftrightarrow>
     conv (Account.UpdatedDateUTC d) True = (Account.UpdatedDateUTC r, None) \<and>
     r = d\<lparr>Account.UpdatedDateUTC := Account.UpdatedDateUTC r\<rparr>"

text \<open>
  The returned collection is not \<open>nil\<close> and is the decoding of the response \<open>b\<close> with every element converted,
  position by position.
\<close>

definition Contacts_normalized ::
  "('cl, 's) helpers \<Rightarrow> 'm json \<Rightarrow> bytes \<Rightarrow> 'm Contacts option \<Rightarrow> bool" where
  "Contacts_normalized h js b ro \<longleftrightarrow>
     (case (Unmarshal_Contacts js b, ro) of
        (Inr (Some d), Some r) \<Rightarrow>
          list_all2 (Contact_date_converted (DotNetJSONTimeToRFC3339 h)) (Contacts d) (Contacts r)
      | _ \<Rightarrow> False)"

definition Accounts_normalized ::
  "('cl, 's) helpers \<Rightarrow> 'm json \<Rightarrow> bytes \<Rightarrow> Accounts option \<Rightarrow> bool" where
  "Accounts_normalized h js b ro \<longleftrightarrow>
     (case (Unmarshal_Accounts js b, ro) of
        (Inr (Some d), Some r) \<Rightarrow>
          list_all2 (Account_date_converted (DotNetJSONTimeToRFC3339 h)) (Accounts d) (Accounts r)
      | _ \<Rightarrow> False)"

text \<open>The single item \<open>c\<close> is the converted first element of the decoding of \<open>b\<close>.\<close>

definition Contact_normalized ::
  "('cl, 's) helpers \<Rightarrow> 'm json \<Rightarrow> bytes \<Rightarrow> 'm Contact_scheme \<Rightarrow> bool" where
  "Contact_normalized h js b c \<longleftrightarrow>
     (case Unmarshal_Contacts js b of
        Inr (Some d) \<Rightarrow>
          Contacts d \<noteq> [] \<and> Contact_date_converted (DotNetJSONTimeToRFC3339 h) (hd (Contacts d)) c
      | _ \<Rightarrow> False)"

definition Account_normalized ::
  "('cl, 's) helpers \<Rightarrow> 'm json \<Rightarrow> bytes \<Rightarrow> Account \<Rightarrow> bool" where
  "Account_normalized h js b a \<longleftrightarrow>
     (case Unmarshal_Accounts js b of
        Inr (Some d) \<Rightarrow>
          Accounts d \<noteq> [] \<and> Account_date_converted (DotNetJSONTimeToRFC3339 h) (hd (Accounts d)) a
      | _ \<Rightarrow> False)"

subsection \<open>The listing handler in the words of the specification\<close>

text \<open>
  Section 4.5: a resource-listing handler (a) loads the current session, (b) builds an
  authenticated transport, (c) resolves all tenants, (d) fetches the target resource
  from every tenant and concatenates the results, (e) renders. Section 7: any error from
  an authenticated call aborts the handling of the request.
\<close>

fun fetch_every_tenant ::
  "(Tenant \<Rightarrow> 's \<Rightarrow> 'a list result \<times> 's) \<Rightarrow> Tenant list \<Rightarrow> 's \<Rightarrow> 'a list list result \<times> 's" where
  "fetch_every_tenant fetch [] s = (Ok [], s)"
| "fetch_every_tenant fetch (t # ts) s =
     (case fetch t s of
        (Panic p, s') \<Rightarrow> (Panic p, s')
      | (Err e, s') \<Rightarrow> (Err e, s')
      | (Ok xs, s') \<Rightarrow>
          (case fetch_every_tenant fetch ts s' of
             (Panic p, s'') \<Rightarrow> (Panic p, s'')
           | (Err e, s'') \<Rightarrow> (Err e, s'')
           | (Ok xss, s'') \<Rightarrow> (Ok (xs # xss), s'')))"

definition resource_listing ::
  "('m, 'w) env \<Rightarrow> (client \<Rightarrow> 'w state \<Rightarrow> 'a list result \<times> 'w state) \<Rightarrow> ('a list \<Rightarrow> 'm response)
     \<Rightarrow> 'w state \<Rightarrow> 'm outcome \<times> 'w state" where
  "resource_listing env fetch render s =
     (let session = fst (GetSession (repo s) uuid_Nil);
          transport = (\<lambda>tenantID. Client \<lparr>Token = session, UserID = uuid_Nil, TenantID = tenantID\<rparr>)
      in (case GetTenants_call env (transport uuid_Nil) s of
            (Panic p, s1) \<Rightarrow> (Aborted p, s1)
          | (Err e, s1) \<Rightarrow> (Aborted (PanicError e), s1)
          | (Ok tenants, s1) \<Rightarrow>
              (case fetch_every_tenant (\<lambda>t. fetch (transport (Tenant.TenantID t))) tenants s1 of
                 (Panic p, s2) \<Rightarrow> (Aborted p, s2)
               | (Err e, s2) \<Rightarrow> (Aborted (PanicError e), s2)
               | (Ok xss, s2) \<Rightarrow> (Responded (render (concat xss)), s2))))"

text \<open>
  The fetch of one resource as a handler performs it: the call through the client,
  recorded, and then the collection field of the returned pointer (\<open>finder\<close>) or the
  returned slice itself (\<open>finder_slice\<close>).
\<close>

definition finder ::
  "resource \<Rightarrow> (client \<Rightarrow> 'w outside \<Rightarrow> 'r option result \<times> 'w outside) \<Rightarrow> ('r \<Rightarrow> 'a list)
     \<Rightarrow> client \<Rightarrow> 'w state \<Rightarrow> 'a list result \<times> 'w state" where
  "finder res f field cl s =
     (case through_client (f cl) (Call_Find res cl) s of
        (Panic p, s') \<Rightarrow> (Panic p, s')
      | (Err e, s') \<Rightarrow> (Err e, s')
      | (Ok None, s') \<Rightarrow> (Panic NilDereference, s')
      | (Ok (Some r), s') \<Rightarrow> (Ok (field r), s'))"

definition finder_slice ::
  "resource \<Rightarrow> (client \<Rightarrow> 'w outside \<Rightarrow> 'a list result \<times> 'w outside)
     \<Rightarrow> client \<Rightarrow> 'w state \<Rightarrow> 'a list result \<times> 'w state" where
  "finder_slice res f cl s = through_client (f cl) (Call_Find res cl) s"

subsection \<open>Failing loudly\<close>

text \<open>
  \<open>fail_loudly evs a\<close>: in the calls \<open>evs\<close> made while a request was handled, a call that
  returned an error or panicked is the last one, and the handling was aborted with that
  error or panic (\<open>a\<close> is the panic that ended the handling, if any).
\<close>

fun fail_loudly :: "event list \<Rightarrow> panic option \<Rightarrow> bool" where
  "fail_loudly [] a = True"
| "fail_loudly (Event c Returned # evs) a = fail_loudly evs a"
| "fail_loudly (Event c (Failed e) # evs) a = (evs = [] \<and> a = Some (PanicError e))"
| "fail_loudly (Event c (Crashed p) # evs) a = (evs = [] \<and> a = Some p)"

fun abort_of :: "'m outcome \<Rightarrow> panic option" where
  "abort_of (Aborted p) = Some p"
| "abort_of (Responded r) = None"

text \<open>The calls made between two states.\<close>

definition new_calls :: "'w state \<Rightarrow> 'w state \<Rightarrow> event list" where
  "new_calls s s' = drop (length (calls s)) (calls s')"

fun is_Call_Refresh :: "event \<Rightarrow> bool" where
  "is_Call_Refresh (Event (Call_Refresh t) st) = True"
| "is_Call_Refresh _ = False"

text \<open>
  The panic that ends the handling when a handler receives the result \<open>r\<close> from a call:
  an error is passed to \<open>log.Panic\<close>, a panic of the callee goes on unwinding.
\<close>

fun abort_of_result :: "'a result \<Rightarrow> panic option" where
  "abort_of_result (Ok x) = None"
| "abort_of_result (Err e) = Some (PanicError e)"
| "abort_of_result (Panic p) = Some p"

text \<open>
  \<open>fails_loudly s res\<close>: handling a request in the state \<open>s\<close> with the result \<open>res\<close> only
  added calls to the record, and it failed loudly. \<open>never_refreshes s res\<close>: none of the
  added calls is a call of \<open>Refresh\<close>.
\<close>

definition fails_loudly :: "'w state \<Rightarrow> 'm outcome \<times> 'w state \<Rightarrow> bool" where
  "fails_loudly s res \<longleftrightarrow>
     calls (snd res) = calls s @ new_calls s (snd res) \<and>
     fail_loudly (new_calls s (snd res)) (abort_of (fst res))"

definition never_refreshes :: "'w state \<Rightarrow> 'm outcome \<times> 'w state \<Rightarrow> bool" where
  "never_refreshes s res \<longleftrightarrow>
     list_all (\<lambda>ev. \<not> is_Call_Refresh ev) (new_calls s (snd res))"

subsection \<open>A small platform to run the functions on\<close>

text \<open>
  A contact and an account with an identifier and a date; every other field is at its
  zero value.
\<close>

definition example_Contact :: "string \<Rightarrow> string \<Rightarrow> Contact" where
  "example_Contact cid date =
     \<lparr>ContactID = cid, ContactNumber = '''', AccountNumber = '''', ContactStatus = '''',
      Name = '''', FirstName = '''', LastName = '''', EmailAddress = '''',
      SkypeUserName = '''', BankAccountDetails = '''', TaxNumber = '''',
      AccountsReceivableTaxType = '''', AccountsPayableTaxType = '''',
      IsSupplier = False, IsCustomer = False, DefaultCurrency = '''',
      XeroNetworkKey = '''', SalesDefaultAccountCode = '''',
      PurchasesDefaultAccountCode = '''', TrackingCategoryName = '''',
      TrackingCategoryOption = '''', UpdatedDateUTC = date, Website = '''',
      HasAttachments = False\<rparr>"

definition example_Account :: "string \<Rightarrow> string \<Rightarrow> Account" where
  "example_Account aid date =
     \<lparr>Code = '''', Name = '''', Type = '''', BankAccountNumber = '''', Status = '''',
      Description = '''', BankAccountType = '''', CurrencyCode = '''', TaxType = '''',
      EnablePaymentsToAccount = False, ShowInExpenseClaims = False, AccountID = aid,
      Class = '''', SystemAccount = '''', ReportingCode = '''', ReportingCodeName = '''',
      HasAttachments = False, UpdatedDateUTC = date\<rparr>"

text \<open>
  The state of this platform is the list of the requests it received: the helper that
  was called, the URL and the body. Every request is answered with the document \<open>two\<close>,
  except a request for the item \<open>missing\<close>, which is answered with the document
  \<open>none\<close>. The dates are converted as the specification says, an empty date being kept.
\<close>

definition example_helpers :: "(unit, (string \<times> string \<times> bytes) list) helpers" where
  "example_helpers =
     \<lparr>Find = (\<lambda>cl url headers query s.
         (Ok (if url = contactsURL @ ''/missing'' \<or> url = accountsURL @ ''/missing''
              then ''none'' else ''two''),
          s @ [(''Find'', url, '''')])),
      Create = (\<lambda>cl url body s. (Ok ''two'', s @ [(''Create'', url, body)])),
      Update = (\<lambda>cl url body s. (Ok ''two'', s @ [(''Update'', url, body)])),
      Remove = (\<lambda>cl url s. (Ok ''two'', s @ [(''Remove'', url, '''')])),
      DotNetJSONTimeToRFC3339 = DotNetJSONTimeToRFC3339_spec keep_empty\<rparr>"

text \<open>
  The document \<open>two\<close> decodes to two elements with legacy dates, \<open>none\<close> to an empty
  collection, \<open>mixed\<close> to an element with a legacy date and one whose date is already
  normalized; a collection is encoded as the identifiers of its elements.
\<close>

definition example_json :: "unit json" where
  "example_json =
     \<lparr>Unmarshal_Contacts = (\<lambda>b.
         if b = ''two'' then
           Inr (Some \<lparr>Contacts = [example_Contact ''c1'' ''/Date(1580000000000+0000)/'',
                                    example_Contact ''c2'' ''/Date(0)/'']\<rparr>)
         else if b = ''none'' then Inr (Some \<lparr>Contacts = []\<rparr>)
         else if b = ''mixed'' then
           Inr (Some \<lparr>Contacts = [example_Contact ''c1'' ''/Date(1580000000000+0000)/'',
                                    example_Contact ''c3'' ''2020-01-26T00:53:20Z'']\<rparr>)
         else Inl (DecodeError b)),
      Marshal_Contacts = (\<lambda>c. Inr (concat (map (\<lambda>x. ContactID x @ '';'') (Contacts c)))),
      Unmarshal_Accounts = (\<lambda>b.
         if b = ''two'' then
           Inr (Some \<lparr>Accounts = [example_Account ''a1'' ''/Date(1580000000000+0000)/'',
                                    example_Account ''a2'' ''/Date(0)/'']\<rparr>)
         else if b = ''none'' then Inr (Some \<lparr>Accounts = []\<rparr>)
         else if b = ''mixed'' then
           Inr (Some \<lparr>Accounts = [example_Account ''a1'' ''/Date(1580000000000+0000)/'',
                                    example_Account ''a3'' ''2020-01-26T00:53:20Z'']\<rparr>)
         else Inl (DecodeError b)),
      Marshal_Accounts = (\<lambda>a. Inr (concat (map (\<lambda>x. AccountID x @ '';'') (Accounts a))))\<rparr>"

text \<open>The document \<open>two\<close> with its dates converted.\<close>

definition example_two_Contacts :: "unit Contacts" where
  "example_two_Contacts =
     \<lparr>Contacts = [example_Contact ''c1'' ''2020-01-26T00:53:20Z'',
                  example_Contact ''c2'' ''1970-01-01T00:00:00Z'']\<rparr>"

definition example_two_Accounts :: Accounts where
  "example_two_Accounts =
     \<lparr>Accounts = [example_Account ''a1'' ''2020-01-26T00:53:20Z'',
                  example_Account ''a2'' ''1970-01-01T00:00:00Z'']\<rparr>"

subsection \<open>A small platform behind the handlers\<close>

text \<open>
  A provider that exchanges the code \<open>fake-code\<close> for a token and nothing else, and
  refreshes every token but \<open>nil\<close> and the one whose refresh token is \<open>revoked\<close>; a
  tenant resolver that wants a token and then knows the tenants \<open>t1\<close> and \<open>t2\<close>;
  request functions that answer a request with the identifier of the tenant of the
  client, which decodes to one contact or account named after the tenant. The other
  resources are empty. The platform has no state of its own.
\<close>

definition example_Token :: "string \<Rightarrow> int \<Rightarrow> Token" where
  "example_Token access expiry =
     \<lparr>AccessToken = access, TokenType = ''Bearer'', RefreshToken = ''r-'' @ access,
      Expiry = expiry\<rparr>"

definition example_resources :: "(client, unit outside) helpers" where
  "example_resources =
     \<lparr>Find = (\<lambda>cl url headers query out.
         case cl of Client session \<Rightarrow> (Ok (Session.TenantID session), out)),
      Create = (\<lambda>cl url body out.
         case cl of Client session \<Rightarrow> (Ok (Session.TenantID session), out)),
      Update = (\<lambda>cl url body out.
         case cl of Client session \<Rightarrow> (Ok (Session.TenantID session), out)),
      Remove = (\<lambda>cl url out.
         case cl of Client session \<Rightarrow> (Ok (Session.TenantID session), out)),
      DotNetJSONTimeToRFC3339 = DotNetJSONTimeToRFC3339_spec keep_empty\<rparr>"

definition example_codec :: "unit json" where
  "example_codec =
     \<lparr>Unmarshal_Contacts = (\<lambda>b. Inr (Some \<lparr>Contacts = [example_Contact b ''/Date(0)/'']\<rparr>)),
      Marshal_Contacts = (\<lambda>c. Inr (concat (map (\<lambda>x. ContactID x @ '';'') (Contacts c)))),
      Unmarshal_Accounts = (\<lambda>b. Inr (Some \<lparr>Accounts = [example_Account b ''/Date(0)/'']\<rparr>)),
      Marshal_Accounts = (\<lambda>a. Inr (concat (map (\<lambda>x. AccountID x @ '';'') (Accounts a))))\<rparr>"

definition example_Refresh :: "Token option \<Rightarrow> unit \<Rightarrow> Token result \<times> unit" where
  "example_Refresh t w =
     (case t of
        None \<Rightarrow> (Err (AuthError ''no token''), w)
      | Some token \<Rightarrow>
          (if RefreshToken token = ''revoked'' then (Err (AuthError ''revoked''), w)
           else (Ok (example_Token (AccessToken token @ ''+'') (Expiry token + 1800)), w)))"

definition example_env :: "(unit, unit) env" where
  "example_env =
     \<lparr>GetAuthURL = (\<lambda>state. ''https://login.xero.com/identity/connect/authorize?state='' @ state),
      GetTokenFromCode = (\<lambda>code w.
         if code = ''fake-code'' then (Ok (example_Token ''a'' 1000), w)
         else (Err (AuthError ''invalid code''), w)),
      Refresh = example_Refresh,
      GetTenants = (\<lambda>cl out.
         case cl of Client session \<Rightarrow>
           (case Token session of
              None \<Rightarrow> (Err (AuthError ''no token''), out)
            | Some token \<Rightarrow> (Ok [\<lparr>TenantID = ''t1''\<rparr>, \<lparr>TenantID = ''t2''\<rparr>], out))),
      helpers = example_resources,
      json = example_codec,
      FindInvoices = (\<lambda>cl out. (Ok (Some []), out)),
      FindOrganisations = (\<lambda>cl out. (Ok (Some []), out)),
      FindBankTransactions = (\<lambda>cl out. (Ok (Some []), out)),
      FindBankTransfers = (\<lambda>cl out. (Ok (Some []), out)),
      FindBrandingThemes = (\<lambda>cl out. (Ok [], out)),
      FindContactGroups = (\<lambda>cl out. (Ok (Some []), out)),
      FindCreditNotes = (\<lambda>cl out. (Ok (Some []), out)),
      FindCurrencies = (\<lambda>cl out. (Ok (Some []), out)),
      FindEmployees = (\<lambda>cl out. (Ok (Some []), out)),
      FindInvoiceReminders = (\<lambda>cl out. (Ok (Some []), out)),
      FindItems = (\<lambda>cl out. (Ok (Some []), out)),
      NewV4 = (\<lambda>w. (''6ba7b810-9dad-41d1-80b4-00c04fd430c8'', w)),
      Contact_zero = ()\<rparr>"

text \<open>The state of a fresh process, and the one in which a session is stored.\<close>

definition example_start :: "unit state" where
  "example_start = \<lparr>repo = Map.empty, world = (), calls = []\<rparr>"

definition example_connected :: "unit state" where
  "example_connected =
     \<lparr>repo = Map.empty(uuid_Nil \<mapsto> example_Token ''a'' 1000), world = (), calls = []\<rparr>"

definition GET :: "string \<Rightarrow> request" where
  "GET path = \<lparr>Path = path, Form = Map.empty\<rparr>"

text \<open>The underlying transport of the small platform echoes the credential and the request.\<close>

definition example_send :: "string \<Rightarrow> string \<Rightarrow> unit \<Rightarrow> bytes result \<times> unit" where
  "example_send bearer rq w = (Ok (bearer @ '' '' @ rq), w)"

text \<open>What the transport did before the request left.\<close>

definition before_send :: "'rq wire_event list \<Rightarrow> 'rq wire_event list" where
  "before_send evs = takeWhile (\<lambda>ev. \<not> is_Sent ev) evs"

text \<open>A session of the nil user whose token expired at time 1000, and the store that holds it.\<close>

definition example_session :: Session where
  "example_session =
     \<lparr>Token = Some (example_Token ''a'' 1000), UserID = uuid_Nil, TenantID = uuid_Nil\<rparr>"

definition example_store :: "uuid \<rightharpoonup> Token" where
  "example_store = Map.empty(uuid_Nil \<mapsto> example_Token ''a'' 1000)"

section \<open>The conversion loop\<close>

declare Contacts_convertDates_from.simps [simp del]
declare Accounts_convertDates_from.simps [simp del]
declare padded.simps [simp del]

text \<open>
  When the loop started at index \<open>n\<close> returns without an error, the slice keeps its
  length, every element up to \<open>n\<close> is converted and every element beyond is untouched.
\<close>

lemma Contacts_convertDates_from_Ok:
  "Contacts_convertDates_from conv cs n = (Ok u, cs') \<Longrightarrow> n < int (length cs) \<Longrightarrow>
   length cs' = length cs \<and>
   (\<forall>i<length cs. if int i \<le> n then Contact_date_converted conv (cs ! i) (cs' ! i)
                    else cs' ! i = cs ! i)"
proof (induction conv cs n arbitrary: cs' rule: Contacts_convertDates_from.induct)
  case (1 conv cs n)
  show ?case
  proof (cases "0 \<le> n")
    case False
    with "1.prems" show ?thesis
      by (simp add: Contacts_convertDates_from.simps)
  next
    case True
    with "1.prems" have inr: "nat n < length cs" by simp
    obtain s err where cv: "conv (Contact.UpdatedDateUTC (cs ! nat n)) True = (s, err)"
      by (cases "conv (Contact.UpdatedDateUTC (cs ! nat n)) True")
    define cs1 where "cs1 = cs[nat n := (cs ! nat n)\<lparr>Contact.UpdatedDateUTC := s\<rparr>]"
    from "1.prems"(1) True inr cv have noerr: "err = None"
      and rec: "Contacts_convertDates_from conv cs1 (n - 1) = (Ok u, cs')"
      by (auto simp: Contacts_convertDates_from.simps [of conv cs n] cs1_def Let_def
               split: option.splits)
    have ih: "length cs' = length cs1 \<and>
      (\<forall>i<length cs1. if int i \<le> n - 1 then Contact_date_converted conv (cs1 ! i) (cs' ! i)
                       else cs' ! i = cs1 ! i)"
    proof (rule "1.IH" [OF True inr cv [symmetric] cs1_def noerr rec])
      show "n - 1 < int (length cs1)" using inr by (simp add: cs1_def)
    qed
    show ?thesis
    proof (intro conjI allI impI)
      show "length cs' = length cs" using ih by (simp add: cs1_def)
    next
      fix i assume i: "i < length cs"
      show "if int i \<le> n then Contact_date_converted conv (cs ! i) (cs' ! i) else cs' ! i = cs ! i"
      proof (cases "i = nat n")
        case True
        with ih i \<open>0 \<le> n\<close> have "cs' ! i = cs1 ! i" by (auto simp: cs1_def)
        with True i cv noerr \<open>0 \<le> n\<close> show ?thesis
          by (simp add: cs1_def Contact_date_converted_def)
      next
        case False
        with ih i \<open>0 \<le> n\<close> show ?thesis
          by (auto simp: cs1_def split: if_splits)
      qed
    qed
  qed
qed

lemma Accounts_convertDates_from_Ok:
  "Accounts_convertDates_from conv as n = (Ok u, as') \<Longrightarrow> n < int (length as) \<Longrightarrow>
   length as' = length as \<and>
   (\<forall>i<length as. if int i \<le> n then Account_date_converted conv (as ! i) (as' ! i)
                    else as' ! i = as ! i)"
proof (induction conv as n arbitrary: as' rule: Accounts_convertDates_from.induct)
  case (1 conv as n)
  show ?case
  proof (cases "0 \<le> n")
    case False
    with "1.prems" show ?thesis
      by (simp add: Accounts_convertDates_from.simps)
  next
    case True
    with "1.prems" have inr: "nat n < length as" by simp
    obtain s err where cv: "conv (Account.UpdatedDateUTC (as ! nat n)) True = (s, err)"
      by (cases "conv (Account.UpdatedDateUTC (as ! nat n)) True")
    define as1 where "as1 = as[nat n := (as ! nat n)\<lparr>Account.UpdatedDateUTC := s\<rparr>]"
    from "1.prems"(1) True inr cv have noerr: "err = None"
      and rec: "Accounts_convertDates_from conv as1 (n - 1) = (Ok u, as')"
      by (auto simp: Accounts_convertDates_from.simps [of conv as n] as1_def Let_def
               split: option.splits)
    have ih: "length as' = length as1 \<and>
      (\<forall>i<length as1. if int i \<le> n - 1 then Account_date_converted conv (as1 ! i) (as' ! i)
                       else as' ! i = as1 ! i)"
    proof (rule "1.IH" [OF True inr cv [symmetric] as1_def noerr rec])
      show "n - 1 < int (length as1)" using inr by (simp add: as1_def)
    qed
    show ?thesis
    proof (intro conjI allI impI)
      show "length as' = length as" using ih by (simp add: as1_def)
    next
      fix i assume i: "i < length as"
      show "if int i \<le> n then Account_date_converted conv (as ! i) (as' ! i) else as' ! i = as ! i"
      proof (cases "i = nat n")
        case True
        with ih i \<open>0 \<le> n\<close> have "as' ! i = as1 ! i" by (auto simp: as1_def)
        with True i cv noerr \<open>0 \<le> n\<close> show ?thesis
          by (simp add: as1_def Account_date_converted_def)
      next
        case False
        with ih i \<open>0 \<le> n\<close> show ?thesis
          by (auto simp: as1_def split: if_splits)
      qed
    qed
  qed
qed

text \<open>Started inside the slice, the loop never runs out of it.\<close>

lemma Contacts_convertDates_from_no_Panic:
  "n < int (length cs) \<Longrightarrow> fst (Contacts_convertDates_from conv cs n) \<noteq> Panic p"
proof (induction conv cs n rule: Contacts_convertDates_from.induct)
  case (1 conv cs n)
  show ?case
  proof (cases "0 \<le> n")
    case False
    then show ?thesis by (simp add: Contacts_convertDates_from.simps)
  next
    case True
    with "1.prems" have inr: "nat n < length cs" by simp
    obtain s err where cv: "conv (Contact.UpdatedDateUTC (cs ! nat n)) True = (s, err)"
      by (cases "conv (Contact.UpdatedDateUTC (cs ! nat n)) True")
    show ?thesis
    proof (cases err)
      case (Some e)
      with True inr cv show ?thesis
        by (simp add: Contacts_convertDates_from.simps [of conv cs n])
    next
      case None
      have "fst (Contacts_convertDates_from conv
                   (cs[nat n := (cs ! nat n)\<lparr>Contact.UpdatedDateUTC := s\<rparr>]) (n - 1)) \<noteq> Panic p"
        using "1.IH" [OF True inr cv [symmetric] refl None] inr by simp
      with True inr cv None show ?thesis
        by (simp add: Contacts_convertDates_from.simps [of conv cs n])
    qed
  qed
qed

lemma Accounts_convertDates_from_no_Panic:
  "n < int (length as) \<Longrightarrow> fst (Accounts_convertDates_from conv as n) \<noteq> Panic p"
proof (induction conv as n rule: Accounts_convertDates_from.induct)
  case (1 conv as n)
  show ?case
  proof (cases "0 \<le> n")
    case False
    then show ?thesis by (simp add: Accounts_convertDates_from.simps)
  next
    case True
    with "1.prems" have inr: "nat n < length as" by simp
    obtain s err where cv: "conv (Account.UpdatedDateUTC (as ! nat n)) True = (s, err)"
      by (cases "conv (Account.UpdatedDateUTC (as ! nat n)) True")
    show ?thesis
    proof (cases err)
      case (Some e)
      with True inr cv show ?thesis
        by (simp add: Accounts_convertDates_from.simps [of conv as n])
    next
      case None
      have "fst (Accounts_convertDates_from conv
                   (as[nat n := (as ! nat n)\<lparr>Account.UpdatedDateUTC := s\<rparr>]) (n - 1)) \<noteq> Panic p"
        using "1.IH" [OF True inr cv [symmetric] refl None] inr by simp
      with True inr cv None show ?thesis
        by (simp add: Accounts_convertDates_from.simps [of conv as n])
    qed
  qed
qed

section \<open>unmarshalContact and unmarshalAccount\<close>

lemma unmarshalContact_Ok:
  assumes "unmarshalContact h js b = Ok ro"
  shows "Contacts_normalized h js b ro"
proof -
  from assms obtain d u cs' where dec: "Unmarshal_Contacts js b = Inr (Some d)"
    and loop: "Contacts_convertDates_from (DotNetJSONTimeToRFC3339 h) (Contacts d)
                 (int (length (Contacts d)) - 1) = (Ok u, cs')"
    and ro: "ro = Some (d\<lparr>Contacts := cs'\<rparr>)"
    by (auto simp: unmarshalContact_def Contacts_convertDates_def
             split: sum.splits option.splits prod.splits result.splits)
  from Contacts_convertDates_from_Ok [OF loop]
  have "list_all2 (Contact_date_converted (DotNetJSONTimeToRFC3339 h)) (Contacts d) cs'"
    by (simp add: list_all2_conv_all_nth)
  with dec ro show ?thesis by (simp add: Contacts_normalized_def)
qed

lemma unmarshalAccount_Ok:
  assumes "unmarshalAccount h js b = Ok ro"
  shows "Accounts_normalized h js b ro"
proof -
  from assms obtain d u as' where dec: "Unmarshal_Accounts js b = Inr (Some d)"
    and loop: "Accounts_convertDates_from (DotNetJSONTimeToRFC3339 h) (Accounts d)
                 (int (length (Accounts d)) - 1) = (Ok u, as')"
    and ro: "ro = Some (d\<lparr>Accounts := as'\<rparr>)"
    by (auto simp: unmarshalAccount_def Accounts_convertDates_def
             split: sum.splits option.splits prod.splits result.splits)
  from Accounts_convertDates_from_Ok [OF loop]
  have "list_all2 (Account_date_converted (DotNetJSONTimeToRFC3339 h)) (Accounts d) as'"
    by (simp add: list_all2_conv_all_nth)
  with dec ro show ?thesis by (simp add: Accounts_normalized_def)
qed

text \<open>When the decoded collection is empty there is nothing to convert.\<close>

lemma unmarshalContact_empty:
  "Unmarshal_Contacts js b = Inr (Some d) \<Longrightarrow> Contacts d = [] \<Longrightarrow>
   unmarshalContact h js b = Ok (Some d)"
  by (simp add: unmarshalContact_def Contacts_convertDates_def Contacts_convertDates_from.simps)

lemma unmarshalAccount_empty:
  "Unmarshal_Accounts js b = Inr (Some d) \<Longrightarrow> Accounts d = [] \<Longrightarrow>
   unmarshalAccount h js b = Ok (Some d)"
  by (simp add: unmarshalAccount_def Accounts_convertDates_def Accounts_convertDates_from.simps)

text \<open>
  When the conversion reports an error for the date of some element, the caller gets an
  error and no collection.
\<close>

lemma unmarshalContact_Err:
  assumes dec: "Unmarshal_Contacts js b = Inr (Some d)"
    and c: "c \<in> set (Contacts d)"
    and bad: "snd (DotNetJSONTimeToRFC3339 h (Contact.UpdatedDateUTC c) True) \<noteq> None"
  shows "\<exists>e. unmarshalContact h js b = Err e"
proof (cases "unmarshalContact h js b")
  case (Ok ro)
  from unmarshalContact_Ok [OF Ok] dec obtain r where "ro = Some r" and
    "list_all2 (Contact_date_converted (DotNetJSONTimeToRFC3339 h)) (Contacts d) (Contacts r)"
    by (auto simp: Contacts_normalized_def split: option.splits)
  moreover from c obtain i where "i < length (Contacts d)" "Contacts d ! i = c"
    by (auto simp: in_set_conv_nth)
  ultimately have "Contact_date_converted (DotNetJSONTimeToRFC3339 h) c (Contacts r ! i)"
    by (auto simp: list_all2_conv_all_nth)
  with bad show ?thesis by (simp add: Contact_date_converted_def)
next
  case (Err e)
  then show ?thesis by simp
next
  case (Panic p)
  from c have "int (length (Contacts d)) - 1 < int (length (Contacts d))" by simp
  from Contacts_convertDates_from_no_Panic [OF this, of "DotNetJSONTimeToRFC3339 h" p] Panic dec
  show ?thesis
    by (auto simp: unmarshalContact_def Contacts_convertDates_def
             split: prod.splits result.splits)
qed

lemma unmarshalAccount_Err:
  assumes dec: "Unmarshal_Accounts js b = Inr (Some d)"
    and a: "a \<in> set (Accounts d)"
    and bad: "snd (DotNetJSONTimeToRFC3339 h (Account.UpdatedDateUTC a) True) \<noteq> None"
  shows "\<exists>e. unmarshalAccount h js b = Err e"
proof (cases "unmarshalAccount h js b")
  case (Ok ro)
  from unmarshalAccount_Ok [OF Ok] dec obtain r where "ro = Some r" and
    "list_all2 (Account_date_converted (DotNetJSONTimeToRFC3339 h)) (Accounts d) (Accounts r)"
    by (auto simp: Accounts_normalized_def split: option.splits)
  moreover from a obtain i where "i < length (Accounts d)" "Accounts d ! i = a"
    by (auto simp: in_set_conv_nth)
  ultimately have "Account_date_converted (DotNetJSONTimeToRFC3339 h) a (Accounts r ! i)"
    by (auto simp: list_all2_conv_all_nth)
  with bad show ?thesis by (simp add: Account_date_converted_def)
next
  case (Err e)
  then show ?thesis by simp
next
  case (Panic p)
  from a have "int (length (Accounts d)) - 1 < int (length (Accounts d))" by simp
  from Accounts_convertDates_from_no_Panic [OF this, of "DotNetJSONTimeToRFC3339 h" p] Panic dec
  show ?thesis
    by (auto simp: unmarshalAccount_def Accounts_convertDates_def
             split: prod.splits result.splits)
qed

section \<open>The date conversion at concrete inputs\<close>

lemma format_RFC3339_1580000000: "format_RFC3339 1580000000 = ''2020-01-26T00:53:20Z''"
  by (simp add: format_RFC3339_def civil_from_days_def civil_from_doe_def civil_from_yoe_def
        civil_from_mp_def padded.simps digit_char_def)

lemma format_RFC3339_0: "format_RFC3339 0 = ''1970-01-01T00:00:00Z''"
  by (simp add: format_RFC3339_def civil_from_days_def civil_from_doe_def civil_from_yoe_def
        civil_from_mp_def padded.simps digit_char_def)

lemma legacy_ms_1580000000000: "legacy_ms ''/Date(1580000000000+0000)/'' = Some 1580000000000"
  by (simp add: legacy_ms_def Let_def is_digit_def is_offset_def digits_value_def digit_value_def)

lemma legacy_ms_0: "legacy_ms ''/Date(0)/'' = Some 0"
  by (simp add: legacy_ms_def Let_def is_digit_def is_offset_def digits_value_def digit_value_def)

lemma DotNetJSONTimeToRFC3339_spec_1580000000000:
  "DotNetJSONTimeToRFC3339_spec keep ''/Date(1580000000000+0000)/'' True
     = (''2020-01-26T00:53:20Z'', None)"
  by (simp add: DotNetJSONTimeToRFC3339_spec_def legacy_ms_1580000000000
        format_RFC3339_1580000000)

lemma DotNetJSONTimeToRFC3339_spec_0:
  "DotNetJSONTimeToRFC3339_spec keep ''/Date(0)/'' True = (''1970-01-01T00:00:00Z'', None)"
  by (simp add: DotNetJSONTimeToRFC3339_spec_def legacy_ms_0 format_RFC3339_0)

text \<open>A text in the legacy encoding starts with a slash, a timestamp with a digit.\<close>

lemma legacy_ms_starts: "legacy_ms t = Some ms \<Longrightarrow> t \<noteq> [] \<and> hd t = CHR ''/''"
  by (cases t) (auto simp: legacy_ms_def Let_def split: if_splits)

lemma is_digit_not_slash: "is_digit c \<Longrightarrow> c \<noteq> CHR ''/''"
  by (auto simp: is_digit_def)

lemma legacy_ms_digit_first: "t \<noteq> [] \<Longrightarrow> is_digit (hd t) \<Longrightarrow> legacy_ms t = None"
  using legacy_ms_starts [of t] is_digit_not_slash [of "hd t"]
  by (cases "legacy_ms t") auto

lemma is_digit_digit_char: "is_digit (digit_char n)"
proof -
  have "n mod 10 < length ''0123456789''" by simp
  then have "''0123456789'' ! (n mod 10) \<in> set ''0123456789''" by (rule nth_mem)
  then show ?thesis by (simp only: digit_char_def is_digit_def)
qed

lemma padded_digits: "list_all is_digit (padded w n)"
proof (induction w n rule: padded.induct)
  case (1 w n)
  show ?case
  proof (cases "w = 0 \<and> n = 0")
    case True
    then show ?thesis by (simp add: padded.simps)
  next
    case False
    with "1.IH" have "list_all is_digit (padded (w - 1) (n div 10))" by simp
    with False show ?thesis
      by (subst padded.simps) (simp add: is_digit_digit_char)
  qed
qed

lemma padded_not_empty: "0 < w \<Longrightarrow> padded w n \<noteq> []"
  by (subst padded.simps) simp

lemma format_RFC3339_digit_first:
  "format_RFC3339 secs \<noteq> [] \<and> is_digit (hd (format_RFC3339 secs))"
proof -
  obtain y m d where c: "civil_from_days (secs div 86400) = (y, m, d)"
    by (cases "civil_from_days (secs div 86400)")
  have ne: "padded 4 y \<noteq> []" by (rule padded_not_empty) simp
  then have "hd (padded 4 y) \<in> set (padded 4 y)" by simp
  with padded_digits [of 4 y] have "is_digit (hd (padded 4 y))"
    by (simp add: list_all_iff)
  with ne c show ?thesis by (simp add: format_RFC3339_def)
qed

lemma DotNetJSONTimeToRFC3339_spec_digit_first:
  assumes "t \<noteq> []" and "is_digit (hd t)"
  shows "DotNetJSONTimeToRFC3339_spec keep t isUTC = (t, None)
       \<or> DotNetJSONTimeToRFC3339_spec keep t isUTC = ('''', Some (DecodeError t))"
  using legacy_ms_digit_first [OF assms] by (simp add: DotNetJSONTimeToRFC3339_spec_def)

text \<open>What the conversion returned, converted again, is returned as it is or refused.\<close>

lemma DotNetJSONTimeToRFC3339_spec_again:
  assumes "DotNetJSONTimeToRFC3339_spec keep s isUTC = (t, None)"
  shows "DotNetJSONTimeToRFC3339_spec keep t isUTC = (t, None)
       \<or> DotNetJSONTimeToRFC3339_spec keep t isUTC = ('''', Some (DecodeError t))"
proof (cases "legacy_ms s")
  case (Some ms)
  with assms have "t = format_RFC3339 (ms div 1000)"
    by (simp add: DotNetJSONTimeToRFC3339_spec_def)
  with format_RFC3339_digit_first [of "ms div 1000"] show ?thesis
    by (simp add: DotNetJSONTimeToRFC3339_spec_digit_first)
next
  case None
  with assms have "t = s" by (simp add: DotNetJSONTimeToRFC3339_spec_def split: if_splits)
  with assms show ?thesis by simp
qed

section \<open>The functions on the small platform\<close>

lemma example_unmarshalContact_two:
  "unmarshalContact example_helpers example_json ''two''
     = Ok (Some example_two_Contacts)"
  by (simp add: example_two_Contacts_def unmarshalContact_def Contacts_convertDates_def example_helpers_def
        example_json_def Contacts_convertDates_from.simps example_Contact_def
        DotNetJSONTimeToRFC3339_spec_1580000000000 DotNetJSONTimeToRFC3339_spec_0)

lemma example_unmarshalAccount_two:
  "unmarshalAccount example_helpers example_json ''two''
     = Ok (Some example_two_Accounts)"
  by (simp add: example_two_Accounts_def unmarshalAccount_def Accounts_convertDates_def example_helpers_def
        example_json_def Accounts_convertDates_from.simps example_Account_def
        DotNetJSONTimeToRFC3339_spec_1580000000000 DotNetJSONTimeToRFC3339_spec_0)

lemma example_unmarshalContact_none:
  "unmarshalContact example_helpers example_json ''none'' = Ok (Some \<lparr>Contacts = []\<rparr>)"
  by (simp add: unmarshalContact_empty example_json_def)

lemma example_unmarshalAccount_none:
  "unmarshalAccount example_helpers example_json ''none'' = Ok (Some \<lparr>Accounts = []\<rparr>)"
  by (simp add: unmarshalAccount_empty example_json_def)

lemma example_helpers_Find:
  "Find example_helpers cl url headers query s =
     (Ok (if url = contactsURL @ ''/missing'' \<or> url = accountsURL @ ''/missing''
          then ''none'' else ''two''), s @ [(''Find'', url, '''')])"
  by (simp add: example_helpers_def)

lemma example_helpers_Create:
  "Create example_helpers cl url body s = (Ok ''two'', s @ [(''Create'', url, body)])"
  by (simp add: example_helpers_def)

lemma example_helpers_Update:
  "Update example_helpers cl url body s = (Ok ''two'', s @ [(''Update'', url, body)])"
  by (simp add: example_helpers_def)

lemma example_helpers_Remove:
  "Remove example_helpers cl url s = (Ok ''two'', s @ [(''Remove'', url, '''')])"
  by (simp add: example_helpers_def)

lemma example_json_Marshal_Contacts:
  "Marshal_Contacts example_json c = Inr (concat (map (\<lambda>x. ContactID x @ '';'') (Contacts c)))"
  by (simp add: example_json_def)

lemma example_json_Marshal_Accounts:
  "Marshal_Accounts example_json a = Inr (concat (map (\<lambda>x. AccountID x @ '';'') (Accounts a)))"
  by (simp add: example_json_def)

lemma example_URLs:
  "contactsURL \<noteq> contactsURL @ ''/missing''" "contactsURL \<noteq> accountsURL @ ''/missing''"
  "accountsURL \<noteq> contactsURL @ ''/missing''" "accountsURL \<noteq> accountsURL @ ''/missing''"
  "contactsURL @ ''/c1'' \<noteq> contactsURL @ ''/missing''"
  "contactsURL @ ''/c1'' \<noteq> accountsURL @ ''/missing''"
  "accountsURL @ ''/a1'' \<noteq> contactsURL @ ''/missing''"
  "accountsURL @ ''/a1'' \<noteq> accountsURL @ ''/missing''"
  "contactsURL @ ''/missing'' \<noteq> accountsURL @ ''/missing''"
  by (simp_all add: contactsURL_def accountsURL_def)

lemmas example_calls =
  example_helpers_Find example_helpers_Create example_helpers_Update example_helpers_Remove
  example_json_Marshal_Contacts example_json_Marshal_Accounts example_URLs
  example_unmarshalContact_two example_unmarshalAccount_two
  example_unmarshalContact_none example_unmarshalAccount_none

section \<open>Claims about package accounting\<close>

lemma list_all2_first: "list_all2 P xs ys \<Longrightarrow> ys \<noteq> [] \<Longrightarrow> xs \<noteq> [] \<and> P (hd xs) (ys ! 0)"
  by (cases xs; cases ys; simp)

text \<open>
  C3. Every collection or item that a function of the contact and account modules
  returns (\<open>FindContacts\<close>, \<open>FindContact\<close>, \<open>Create\<close>, \<open>Update\<close>,
  \<open>FindAccountsModifiedSince\<close>, \<open>FindAccounts\<close>, \<open>FindAccount\<close>,
  \<open>RemoveAccount\<close>) is the decoding of the response in which the \<open>UpdatedDateUTC\<close>
  of every element has been replaced by what the date conversion returned for it,
  position by position and without an error: no element is skipped.
\<close>

theorem dates_normalized_in_every_result:
  "(Find h cl contactsURL None None s = (Ok b, s1) \<longrightarrow>
      FindContacts h js cl s = (Ok rc, s') \<longrightarrow> Contacts_normalized h js b rc)
   \<and> (Find h cl (contactsURL @ ''/'' @ contactID) None None s = (Ok b, s1) \<longrightarrow>
      FindContact h js cl contactID s = (Ok (Some c), s') \<longrightarrow> Contact_normalized h js b c)
   \<and> (Marshal_Contacts js cs = Inr buf \<longrightarrow> Create h cl contactsURL buf s = (Ok b, s1) \<longrightarrow>
      Contacts_Create h js cs cl s = (Ok rc, s') \<longrightarrow> Contacts_normalized h js b rc)
   \<and> (Marshal_Contacts js \<lparr>Contacts = [c0]\<rparr> = Inr buf \<longrightarrow>
      Update h cl (contactsURL @ ''/'' @ ContactID c0) buf s = (Ok b, s1) \<longrightarrow>
      fst (Contact_Update h js c0 cl s) = (Ok rc, s') \<longrightarrow> Contacts_normalized h js b rc)
   \<and> (Find h cl accountsURL (Some (Map.empty(''If-Modified-Since'' \<mapsto> since))) q s = (Ok b, s1) \<longrightarrow>
      FindAccountsModifiedSince h js cl since q s = (Ok ra, s') \<longrightarrow>
      Accounts_normalized h js b ra)
   \<and> (Find h cl accountsURL None q s = (Ok b, s1) \<longrightarrow>
      FindAccounts h js cl q s = (Ok ra, s') \<longrightarrow> Accounts_normalized h js b ra)
   \<and> (Find h cl (accountsURL @ ''/'' @ accountID) None None s = (Ok b, s1) \<longrightarrow>
      FindAccount h js cl accountID s = (Ok (Some a), s') \<longrightarrow> Account_normalized h js b a)
   \<and> (Remove h cl (accountsURL @ ''/'' @ accountID) s = (Ok b, s1) \<longrightarrow>
      RemoveAccount h js cl accountID s = (Ok ra, s') \<longrightarrow> Accounts_normalized h js b ra)
   \<and> (Marshal_Accounts js as = Inr buf \<longrightarrow> Create h cl accountsURL buf s = (Ok b, s1) \<longrightarrow>
      Accounts_Create h js as cl s = (Ok ra, s') \<longrightarrow> Accounts_normalized h js b ra)
   \<and> (Marshal_Accounts js \<lparr>Accounts = [a0]\<rparr> = Inr buf \<longrightarrow>
      Update h cl (accountsURL @ ''/'' @ AccountID a0) buf s = (Ok b, s1) \<longrightarrow>
      fst (Account_Update h js a0 cl s) = (Ok ra, s') \<longrightarrow> Accounts_normalized h js b ra)"
proof (intro conjI impI)
  assume "Find h cl contactsURL None None s = (Ok b, s1)" "FindContacts h js cl s = (Ok rc, s')"
  then show "Contacts_normalized h js b rc"
    by (auto simp: FindContacts_def dest: unmarshalContact_Ok)
next
  assume f: "Find h cl (contactsURL @ ''/'' @ contactID) None None s = (Ok b, s1)"
    and r: "FindContact h js cl contactID s = (Ok (Some c), s')"
  from f r obtain r0 where u: "unmarshalContact h js b = Ok (Some r0)"
    and ne: "Contacts r0 \<noteq> []" and c: "c = Contacts r0 ! 0"
    by (auto simp: FindContact_def split: result.splits option.splits if_splits)
  from unmarshalContact_Ok [OF u] ne c show "Contact_normalized h js b c"
    by (auto simp: Contacts_normalized_def Contact_normalized_def
          split: sum.splits option.splits dest: list_all2_first)
next
  assume "Marshal_Contacts js cs = Inr buf" "Create h cl contactsURL buf s = (Ok b, s1)"
    "Contacts_Create h js cs cl s = (Ok rc, s')"
  then show "Contacts_normalized h js b rc"
    by (auto simp: Contacts_Create_def dest: unmarshalContact_Ok)
next
  assume "Marshal_Contacts js \<lparr>Contacts = [c0]\<rparr> = Inr buf"
    "Update h cl (contactsURL @ ''/'' @ ContactID c0) buf s = (Ok b, s1)"
    "fst (Contact_Update h js c0 cl s) = (Ok rc, s')"
  then show "Contacts_normalized h js b rc"
    by (auto simp: Contact_Update_def dest: unmarshalContact_Ok)
next
  assume "Find h cl accountsURL (Some (Map.empty(''If-Modified-Since'' \<mapsto> since))) q s = (Ok b, s1)"
    "FindAccountsModifiedSince h js cl since q s = (Ok ra, s')"
  then show "Accounts_normalized h js b ra"
    by (auto simp: FindAccountsModifiedSince_def dest: unmarshalAccount_Ok)
next
  assume "Find h cl accountsURL None q s = (Ok b, s1)" "FindAccounts h js cl q s = (Ok ra, s')"
  then show "Accounts_normalized h js b ra"
    by (auto simp: FindAccounts_def dest: unmarshalAccount_Ok)
next
  assume f: "Find h cl (accountsURL @ ''/'' @ accountID) None None s = (Ok b, s1)"
    and r: "FindAccount h js cl accountID s = (Ok (Some a), s')"
  from f r obtain r0 where u: "unmarshalAccount h js b = Ok (Some r0)"
    and ne: "Accounts r0 \<noteq> []" and a: "a = Accounts r0 ! 0"
    by (auto simp: FindAccount_def split: result.splits option.splits if_splits)
  from unmarshalAccount_Ok [OF u] ne a show "Account_normalized h js b a"
    by (auto simp: Accounts_normalized_def Account_normalized_def
          split: sum.splits option.splits dest: list_all2_first)
next
  assume "Remove h cl (accountsURL @ ''/'' @ accountID) s = (Ok b, s1)"
    "RemoveAccount h js cl accountID s = (Ok ra, s')"
  then show "Accounts_normalized h js b ra"
    by (auto simp: RemoveAccount_def dest: unmarshalAccount_Ok)
next
  assume "Marshal_Accounts js as = Inr buf" "Create h cl accountsURL buf s = (Ok b, s1)"
    "Accounts_Create h js as cl s = (Ok ra, s')"
  then show "Accounts_normalized h js b ra"
    by (auto simp: Accounts_Create_def dest: unmarshalAccount_Ok)
next
  assume "Marshal_Accounts js \<lparr>Accounts = [a0]\<rparr> = Inr buf"
    "Update h cl (accountsURL @ ''/'' @ AccountID a0) buf s = (Ok b, s1)"
    "fst (Account_Update h js a0 cl s) = (Ok ra, s')"
  then show "Accounts_normalized h js b ra"
    by (auto simp: Account_Update_def dest: unmarshalAccount_Ok)
qed

theorem dates_normalized_in_every_result_witness:
  "FindContacts example_helpers example_json () []
     = (Ok (Some example_two_Contacts), [(''Find'', contactsURL, '''')])
   \<and> Contacts_normalized example_helpers example_json ''two'' (Some example_two_Contacts)
   \<and> FindContact example_helpers example_json () ''c1'' []
     = (Ok (Some (example_Contact ''c1'' ''2020-01-26T00:53:20Z'')),
        [(''Find'', contactsURL @ ''/c1'', '''')])
   \<and> Contact_normalized example_helpers example_json ''two''
        (example_Contact ''c1'' ''2020-01-26T00:53:20Z'')
   \<and> Contacts_Create example_helpers example_json \<lparr>Contacts = [example_Contact ''c1'' '''']\<rparr> () []
     = (Ok (Some example_two_Contacts), [(''Create'', contactsURL, ''c1;'')])
   \<and> fst (Contact_Update example_helpers example_json (example_Contact ''c1'' '''') () [])
     = (Ok (Some example_two_Contacts), [(''Update'', contactsURL @ ''/c1'', ''c1;'')])
   \<and> FindAccountsModifiedSince example_helpers example_json () ''2020-01-01T00:00:00Z'' None []
     = (Ok (Some example_two_Accounts), [(''Find'', accountsURL, '''')])
   \<and> Accounts_normalized example_helpers example_json ''two'' (Some example_two_Accounts)
   \<and> FindAccounts example_helpers example_json () None []
     = (Ok (Some example_two_Accounts), [(''Find'', accountsURL, '''')])
   \<and> FindAccount example_helpers example_json () ''a1'' []
     = (Ok (Some (example_Account ''a1'' ''2020-01-26T00:53:20Z'')),
        [(''Find'', accountsURL @ ''/a1'', '''')])
   \<and> Account_normalized example_helpers example_json ''two''
        (example_Account ''a1'' ''2020-01-26T00:53:20Z'')
   \<and> RemoveAccount example_helpers example_json () ''a1'' []
     = (Ok (Some example_two_Accounts), [(''Remove'', accountsURL @ ''/a1'', '''')])
   \<and> Accounts_Create example_helpers example_json \<lparr>Accounts = [example_Account ''a1'' '''']\<rparr> () []
     = (Ok (Some example_two_Accounts), [(''Create'', accountsURL, ''a1;'')])
   \<and> fst (Account_Update example_helpers example_json (example_Account ''a1'' '''') () [])
     = (Ok (Some example_two_Accounts), [(''Update'', accountsURL @ ''/a1'', ''a1;'')])"
proof -
  have c1: "ContactID (example_Contact ''c1'' d) = ''c1''" for d
    by (simp add: example_Contact_def)
  have a1: "AccountID (example_Account ''a1'' d) = ''a1''" for d
    by (simp add: example_Account_def)
  have fcs: "FindContacts example_helpers example_json () []
     = (Ok (Some example_two_Contacts), [(''Find'', contactsURL, '''')])"
    by (simp add: FindContacts_def example_calls)
  have fc: "FindContact example_helpers example_json () ''c1'' []
     = (Ok (Some (example_Contact ''c1'' ''2020-01-26T00:53:20Z'')),
        [(''Find'', contactsURL @ ''/c1'', '''')])"
    by (simp add: FindContact_def example_calls example_two_Contacts_def)
  have cc: "Contacts_Create example_helpers example_json \<lparr>Contacts = [example_Contact ''c1'' '''']\<rparr> () []
     = (Ok (Some example_two_Contacts), [(''Create'', contactsURL, ''c1;'')])"
    by (simp add: Contacts_Create_def example_calls c1)
  have cu: "fst (Contact_Update example_helpers example_json (example_Contact ''c1'' '''') () [])
     = (Ok (Some example_two_Contacts), [(''Update'', contactsURL @ ''/c1'', ''c1;'')])"
    by (simp add: Contact_Update_def example_calls c1)
  have fam: "FindAccountsModifiedSince example_helpers example_json () ''2020-01-01T00:00:00Z'' None []
     = (Ok (Some example_two_Accounts), [(''Find'', accountsURL, '''')])"
    by (simp add: FindAccountsModifiedSince_def example_calls)
  have fas: "FindAccounts example_helpers example_json () None []
     = (Ok (Some example_two_Accounts), [(''Find'', accountsURL, '''')])"
    by (simp add: FindAccounts_def example_calls)
  have fa: "FindAccount example_helpers example_json () ''a1'' []
     = (Ok (Some (example_Account ''a1'' ''2020-01-26T00:53:20Z'')),
        [(''Find'', accountsURL @ ''/a1'', '''')])"
    by (simp add: FindAccount_def example_calls example_two_Accounts_def)
  have ra: "RemoveAccount example_helpers example_json () ''a1'' []
     = (Ok (Some example_two_Accounts), [(''Remove'', accountsURL @ ''/a1'', '''')])"
    by (simp add: RemoveAccount_def example_calls)
  have ac: "Accounts_Create example_helpers example_json \<lparr>Accounts = [example_Account ''a1'' '''']\<rparr> () []
     = (Ok (Some example_two_Accounts), [(''Create'', accountsURL, ''a1;'')])"
    by (simp add: Accounts_Create_def example_calls a1)
  have au: "fst (Account_Update example_helpers example_json (example_Account ''a1'' '''') () [])
     = (Ok (Some example_two_Accounts), [(''Update'', accountsURL @ ''/a1'', ''a1;'')])"
    by (simp add: Account_Update_def example_calls a1)
  note T = dates_normalized_in_every_result
    [where h = example_helpers and js = example_json and cl = "()" and s = "[]"
       and contactID = "''c1''" and accountID = "''a1''" and b = "''two''"]
  from T [where ?s1.0 = "[(''Find'', contactsURL, '''')]" and rc = "Some example_two_Contacts"
            and s' = "[(''Find'', contactsURL, '''')]", THEN conjunct1] fcs
  have n1: "Contacts_normalized example_helpers example_json ''two'' (Some example_two_Contacts)"
    by (simp add: example_calls)
  from T [where ?s1.0 = "[(''Find'', contactsURL @ ''/c1'', '''')]"
            and c = "example_Contact ''c1'' ''2020-01-26T00:53:20Z''"
            and s' = "[(''Find'', contactsURL @ ''/c1'', '''')]",
            THEN conjunct2, THEN conjunct1] fc
  have n2: "Contact_normalized example_helpers example_json ''two''
        (example_Contact ''c1'' ''2020-01-26T00:53:20Z'')"
    by (simp add: example_calls)
  from T [where ?s1.0 = "[(''Find'', accountsURL, '''')]" and ra = "Some example_two_Accounts"
            and s' = "[(''Find'', accountsURL, '''')]" and q = None,
            THEN conjunct2, THEN conjunct2, THEN conjunct2, THEN conjunct2, THEN conjunct2,
            THEN conjunct1] fas
  have n3: "Accounts_normalized example_helpers example_json ''two'' (Some example_two_Accounts)"
    by (simp add: example_calls)
  from T [where ?s1.0 = "[(''Find'', accountsURL @ ''/a1'', '''')]"
            and a = "example_Account ''a1'' ''2020-01-26T00:53:20Z''"
            and s' = "[(''Find'', accountsURL @ ''/a1'', '''')]",
            THEN conjunct2, THEN conjunct2, THEN conjunct2, THEN conjunct2, THEN conjunct2,
            THEN conjunct2, THEN conjunct1] fa
  have n4: "Account_normalized example_helpers example_json ''two''
        (example_Account ''a1'' ''2020-01-26T00:53:20Z'')"
    by (simp add: example_calls)
  from fcs fc cc cu fam fas fa ra ac au n1 n2 n3 n4 show ?thesis by simp
qed

text \<open>
  C9. When the request succeeds and the decoded collection is empty, \<open>FindContact\<close>
  and \<open>FindAccount\<close> return a \<open>nil\<close> item with a \<open>nil\<close> error (\<open>Ok None\<close>): not
  finding the item is no error, and the caller has to look at the pointer.
\<close>

theorem single_item_lookup_nil_on_empty:
  "(Find h cl (contactsURL @ ''/'' @ contactID) None None s = (Ok b, s') \<longrightarrow>
      Unmarshal_Contacts js b = Inr (Some dc) \<longrightarrow> Contacts dc = [] \<longrightarrow>
      FindContact h js cl contactID s = (Ok None, s'))
   \<and> (Find h cl (accountsURL @ ''/'' @ accountID) None None s = (Ok b, s') \<longrightarrow>
      Unmarshal_Accounts js b = Inr (Some da) \<longrightarrow> Accounts da = [] \<longrightarrow>
      FindAccount h js cl accountID s = (Ok None, s'))"
  by (simp add: FindContact_def FindAccount_def unmarshalContact_empty unmarshalAccount_empty)

theorem single_item_lookup_nil_on_empty_witness:
  "Find example_helpers () (contactsURL @ ''/'' @ ''missing'') None None []
     = (Ok ''none'', [(''Find'', contactsURL @ ''/missing'', '''')])
   \<and> Unmarshal_Contacts example_json ''none'' = Inr (Some \<lparr>Contacts = []\<rparr>)
   \<and> FindContact example_helpers example_json () ''missing'' []
     = (Ok None, [(''Find'', contactsURL @ ''/missing'', '''')])
   \<and> Find example_helpers () (accountsURL @ ''/'' @ ''missing'') None None []
     = (Ok ''none'', [(''Find'', accountsURL @ ''/missing'', '''')])
   \<and> Unmarshal_Accounts example_json ''none'' = Inr (Some \<lparr>Accounts = []\<rparr>)
   \<and> FindAccount example_helpers example_json () ''missing'' []
     = (Ok None, [(''Find'', accountsURL @ ''/missing'', '''')])"
  using single_item_lookup_nil_on_empty
    [where h = example_helpers and js = example_json and cl = "()" and s = "[]"
       and contactID = "''missing''" and accountID = "''missing''" and b = "''none''"
       and s' = "[(''Find'', contactsURL @ ''/missing'', '''')]"
       and dc = "\<lparr>Contacts = []\<rparr>" and da = "\<lparr>Accounts = []\<rparr>", THEN conjunct1]
    single_item_lookup_nil_on_empty
    [where h = example_helpers and js = example_json and cl = "()" and s = "[]"
       and contactID = "''missing''" and accountID = "''missing''" and b = "''none''"
       and s' = "[(''Find'', accountsURL @ ''/missing'', '''')]"
       and dc = "\<lparr>Contacts = []\<rparr>" and da = "\<lparr>Accounts = []\<rparr>", THEN conjunct2]
  by (simp add: example_helpers_Find example_json_def)

text \<open>
  C10. \<open>Update\<close> on a contact or an account encodes a collection whose only element is
  the receiver, passes it to \<open>helpers.Update\<close> with the URL of the resource followed by
  \<open>/\<close> and the identifier of the receiver, and returns the decoded response; when the
  encoding fails no request is made. The receiver is left as it was.
\<close>

theorem Update_sends_singleton_collection:
  "(Marshal_Contacts js \<lparr>Contacts = [c]\<rparr> = Inr bufc \<longrightarrow>
      fst (Contact_Update h js c cl s) =
        (case Update h cl (contactsURL @ ''/'' @ ContactID c) bufc s of
           (Ok b, s') \<Rightarrow> (unmarshalContact h js b, s')
         | (Err e, s') \<Rightarrow> (Err e, s')
         | (Panic p, s') \<Rightarrow> (Panic p, s')))
   \<and> (Marshal_Contacts js \<lparr>Contacts = [c]\<rparr> = Inl e \<longrightarrow>
      fst (Contact_Update h js c cl s) = (Err e, s))
   \<and> snd (Contact_Update h js c cl s) = c
   \<and> (Marshal_Accounts js \<lparr>Accounts = [a]\<rparr> = Inr bufa \<longrightarrow>
      fst (Account_Update h js a cl s) =
        (case Update h cl (accountsURL @ ''/'' @ AccountID a) bufa s of
           (Ok b, s') \<Rightarrow> (unmarshalAccount h js b, s')
         | (Err e, s') \<Rightarrow> (Err e, s')
         | (Panic p, s') \<Rightarrow> (Panic p, s')))
   \<and> (Marshal_Accounts js \<lparr>Accounts = [a]\<rparr> = Inl e \<longrightarrow>
      fst (Account_Update h js a cl s) = (Err e, s))
   \<and> snd (Account_Update h js a cl s) = a"
  by (auto simp: Contact_Update_def Account_Update_def split: sum.splits prod.splits result.splits)

theorem Update_sends_singleton_collection_witness:
  "Marshal_Contacts example_json \<lparr>Contacts = [example_Contact ''c1'' ''old'']\<rparr> = Inr ''c1;''
   \<and> Contact_Update example_helpers example_json (example_Contact ''c1'' ''old'') () []
     = ((Ok (Some example_two_Contacts), [(''Update'', contactsURL @ ''/c1'', ''c1;'')]),
        example_Contact ''c1'' ''old'')
   \<and> Marshal_Accounts example_json \<lparr>Accounts = [example_Account ''a1'' ''old'']\<rparr> = Inr ''a1;''
   \<and> Account_Update example_helpers example_json (example_Account ''a1'' ''old'') () []
     = ((Ok (Some example_two_Accounts), [(''Update'', accountsURL @ ''/a1'', ''a1;'')]),
        example_Account ''a1'' ''old'')"
proof -
  have c1: "ContactID (example_Contact ''c1'' d) = ''c1''" for d
    by (simp add: example_Contact_def)
  have a1: "AccountID (example_Account ''a1'' d) = ''a1''" for d
    by (simp add: example_Account_def)
  have mc: "Marshal_Contacts example_json \<lparr>Contacts = [example_Contact ''c1'' ''old'']\<rparr> = Inr ''c1;''"
    by (simp add: example_calls c1)
  have ma: "Marshal_Accounts example_json \<lparr>Accounts = [example_Account ''a1'' ''old'']\<rparr> = Inr ''a1;''"
    by (simp add: example_calls a1)
  note T = Update_sends_singleton_collection
    [where h = example_helpers and js = example_json and cl = "()" and s = "[]"
       and c = "example_Contact ''c1'' ''old''" and a = "example_Account ''a1'' ''old''"
       and bufc = "''c1;''" and bufa = "''a1;''"]
  from T mc ma
  have "fst (Contact_Update example_helpers example_json (example_Contact ''c1'' ''old'') () [])
          = (Ok (Some example_two_Contacts), [(''Update'', contactsURL @ ''/c1'', ''c1;'')])"
    and "snd (Contact_Update example_helpers example_json (example_Contact ''c1'' ''old'') () [])
          = example_Contact ''c1'' ''old''"
    and "fst (Account_Update example_helpers example_json (example_Account ''a1'' ''old'') () [])
          = (Ok (Some example_two_Accounts), [(''Update'', accountsURL @ ''/a1'', ''a1;'')])"
    and "snd (Account_Update example_helpers example_json (example_Account ''a1'' ''old'') () [])
          = example_Account ''a1'' ''old''"
    by (simp_all add: example_calls c1 a1)
  with mc ma show ?thesis by (simp add: prod_eq_iff)
qed

section \<open>Claims about the date conversion\<close>

text \<open>
  C4, as stated: the legacy input \<open>/Date(1580000000000+0000)/\<close> is mapped to
  \<open>2020-01-25T22:13:20Z\<close>. It is not: 1580000000 seconds after the epoch is
  2020-01-26, 00:53:20 UTC.
\<close>

theorem legacy_date_example_counterexample:
  "DotNetJSONTimeToRFC3339_spec keep_empty ''/Date(1580000000000+0000)/'' True
     \<noteq> (''2020-01-25T22:13:20Z'', None)"
  by (simp add: DotNetJSONTimeToRFC3339_spec_1580000000000)

text \<open>
  C4, amended in the timestamp only. Date normalization maps the legacy input
  \<open>/Date(1580000000000+0000)/\<close> to the equivalent RFC3339 timestamp
  \<open>2020-01-26T00:53:20Z\<close>, and is idempotent: applied to what it returned, and applied to
  any text that starts with a digit as an RFC3339 timestamp does, it is a no-op or an
  explicit error, whichever of the two the implementation chose. The value is never
  silently changed: when the conversion reports an error for the date of some element of
  a decoded collection, \<open>unmarshalContact\<close> and \<open>unmarshalAccount\<close> return an error and
  no collection.
\<close>

theorem date_normalization:
  "DotNetJSONTimeToRFC3339_spec keep ''/Date(1580000000000+0000)/'' True
     = (''2020-01-26T00:53:20Z'', None)
   \<and> (DotNetJSONTimeToRFC3339_spec keep s True = (t, None) \<longrightarrow>
        DotNetJSONTimeToRFC3339_spec keep t True = (t, None)
        \<or> DotNetJSONTimeToRFC3339_spec keep t True = ('''', Some (DecodeError t)))
   \<and> (u \<noteq> [] \<longrightarrow> is_digit (hd u) \<longrightarrow>
        DotNetJSONTimeToRFC3339_spec keep u True = (u, None)
        \<or> DotNetJSONTimeToRFC3339_spec keep u True = ('''', Some (DecodeError u)))
   \<and> (Unmarshal_Contacts js b = Inr (Some dc) \<longrightarrow> c \<in> set (Contacts dc) \<longrightarrow>
        snd (DotNetJSONTimeToRFC3339 h (Contact.UpdatedDateUTC c) True) \<noteq> None \<longrightarrow>
        (\<exists>e. unmarshalContact h js b = Err e))
   \<and> (Unmarshal_Accounts js b = Inr (Some da) \<longrightarrow> a \<in> set (Accounts da) \<longrightarrow>
        snd (DotNetJSONTimeToRFC3339 h (Account.UpdatedDateUTC a) True) \<noteq> None \<longrightarrow>
        (\<exists>e. unmarshalAccount h js b = Err e))"
proof (intro conjI impI)
  show "DotNetJSONTimeToRFC3339_spec keep ''/Date(1580000000000+0000)/'' True
     = (''2020-01-26T00:53:20Z'', None)"
    by (rule DotNetJSONTimeToRFC3339_spec_1580000000000)
next
  assume "DotNetJSONTimeToRFC3339_spec keep s True = (t, None)"
  then show "DotNetJSONTimeToRFC3339_spec keep t True = (t, None)
        \<or> DotNetJSONTimeToRFC3339_spec keep t True = ('''', Some (DecodeError t))"
    by (rule DotNetJSONTimeToRFC3339_spec_again)
next
  assume "u \<noteq> []" "is_digit (hd u)"
  then show "DotNetJSONTimeToRFC3339_spec keep u True = (u, None)
        \<or> DotNetJSONTimeToRFC3339_spec keep u True = ('''', Some (DecodeError u))"
    by (rule DotNetJSONTimeToRFC3339_spec_digit_first)
next
  assume "Unmarshal_Contacts js b = Inr (Some dc)" "c \<in> set (Contacts dc)"
    "snd (DotNetJSONTimeToRFC3339 h (Contact.UpdatedDateUTC c) True) \<noteq> None"
  then show "\<exists>e. unmarshalContact h js b = Err e" by (rule unmarshalContact_Err)
next
  assume "Unmarshal_Accounts js b = Inr (Some da)" "a \<in> set (Accounts da)"
    "snd (DotNetJSONTimeToRFC3339 h (Account.UpdatedDateUTC a) True) \<noteq> None"
  then show "\<exists>e. unmarshalAccount h js b = Err e" by (rule unmarshalAccount_Err)
qed

theorem date_normalization_witness:
  "DotNetJSONTimeToRFC3339_spec keep_empty ''/Date(1580000000000+0000)/'' True
     = (''2020-01-26T00:53:20Z'', None)
   \<and> ''2020-01-26T00:53:20Z'' \<noteq> [] \<and> is_digit (hd ''2020-01-26T00:53:20Z'')
   \<and> (DotNetJSONTimeToRFC3339_spec keep_empty ''2020-01-26T00:53:20Z'' True
         = (''2020-01-26T00:53:20Z'', None)
       \<or> DotNetJSONTimeToRFC3339_spec keep_empty ''2020-01-26T00:53:20Z'' True
         = ('''', Some (DecodeError ''2020-01-26T00:53:20Z'')))
   \<and> DotNetJSONTimeToRFC3339_spec (\<lambda>t. True) ''2020-01-26T00:53:20Z'' True
       = (''2020-01-26T00:53:20Z'', None)
   \<and> Unmarshal_Contacts example_json ''mixed''
       = Inr (Some \<lparr>Contacts = [example_Contact ''c1'' ''/Date(1580000000000+0000)/'',
                                example_Contact ''c3'' ''2020-01-26T00:53:20Z'']\<rparr>)
   \<and> (\<exists>e. unmarshalContact example_helpers example_json ''mixed'' = Err e)
   \<and> Unmarshal_Accounts example_json ''mixed''
       = Inr (Some \<lparr>Accounts = [example_Account ''a1'' ''/Date(1580000000000+0000)/'',
                                example_Account ''a3'' ''2020-01-26T00:53:20Z'']\<rparr>)
   \<and> (\<exists>e. unmarshalAccount example_helpers example_json ''mixed'' = Err e)"
proof -
  let ?t = "''2020-01-26T00:53:20Z''"
  have l: "DotNetJSONTimeToRFC3339_spec keep_empty ''/Date(1580000000000+0000)/'' True
     = (?t, None)"
    by (rule DotNetJSONTimeToRFC3339_spec_1580000000000)
  have n: "?t \<noteq> []" and d: "is_digit (hd ?t)" by (simp_all add: is_digit_def)
  have dc: "Unmarshal_Contacts example_json ''mixed''
       = Inr (Some \<lparr>Contacts = [example_Contact ''c1'' ''/Date(1580000000000+0000)/'',
                                example_Contact ''c3'' ?t]\<rparr>)"
    by (simp add: example_json_def)
  have da: "Unmarshal_Accounts example_json ''mixed''
       = Inr (Some \<lparr>Accounts = [example_Account ''a1'' ''/Date(1580000000000+0000)/'',
                                example_Account ''a3'' ?t]\<rparr>)"
    by (simp add: example_json_def)
  have h: "DotNetJSONTimeToRFC3339 example_helpers = DotNetJSONTimeToRFC3339_spec keep_empty"
    by (simp add: example_helpers_def)
  have uc: "Contact.UpdatedDateUTC (example_Contact ''c3'' ?t) = ?t"
    by (simp add: example_Contact_def)
  have ua: "Account.UpdatedDateUTC (example_Account ''a3'' ?t) = ?t"
    by (simp add: example_Account_def)
  have none: "legacy_ms ?t = None" by (rule legacy_ms_digit_first [OF n d])
  then have e: "snd (DotNetJSONTimeToRFC3339_spec keep_empty ?t True) \<noteq> None"
    and k: "DotNetJSONTimeToRFC3339_spec (\<lambda>t. True) ?t True = (?t, None)"
    by (simp_all add: DotNetJSONTimeToRFC3339_spec_def keep_empty_def)
  note T = date_normalization
    [where keep = keep_empty and s = "''/Date(1580000000000+0000)/''" and t = ?t and u = ?t
       and js = example_json and h = example_helpers and b = "''mixed''"
       and dc = "\<lparr>Contacts = [example_Contact ''c1'' ''/Date(1580000000000+0000)/'',
                                 example_Contact ''c3'' ?t]\<rparr>"
       and c = "example_Contact ''c3'' ?t"
       and da = "\<lparr>Accounts = [example_Account ''a1'' ''/Date(1580000000000+0000)/'',
                                 example_Account ''a3'' ?t]\<rparr>"
       and a = "example_Account ''a3'' ?t"]
  from T l have again: "DotNetJSONTimeToRFC3339_spec keep_empty ?t True = (?t, None)
       \<or> DotNetJSONTimeToRFC3339_spec keep_empty ?t True = ('''', Some (DecodeError ?t))"
    by blast
  from T dc e have "\<exists>e. unmarshalContact example_helpers example_json ''mixed'' = Err e"
    by (simp add: h uc)
  moreover from T da e have "\<exists>e. unmarshalAccount example_helpers example_json ''mixed'' = Err e"
    by (simp add: h ua)
  ultimately show ?thesis using l n d again k dc da by simp
qed

section \<open>The handlers\<close>

lemma through_client_calls:
  "through_client f c s = (r, s') \<Longrightarrow> calls s' = calls s @ [Event c (status_of r)]"
  by (auto simp: through_client_def split: prod.splits)

lemma through_provider_calls:
  "through_provider f c s = (r, s') \<Longrightarrow> calls s' = calls s @ [Event c (status_of r)]"
  by (auto simp: through_provider_def split: prod.splits)

text \<open>
  The loop of a listing handler, which appends to its accumulator, fetches what
  \<open>fetch_every_tenant\<close> fetches and ends with the concatenation.
\<close>

lemma for_range_fetch:
  assumes "\<And>t acc s. body t acc s =
             (case fetch t s of
                (Panic p, s') \<Rightarrow> (Inl p, s')
              | (Err e, s') \<Rightarrow> (Inl (PanicError e), s')
              | (Ok xs, s') \<Rightarrow> (Inr (acc @ xs), s'))"
  shows "for_range body ts acc s =
           (case fetch_every_tenant fetch ts s of
              (Panic p, s') \<Rightarrow> (Inl p, s')
            | (Err e, s') \<Rightarrow> (Inl (PanicError e), s')
            | (Ok xss, s') \<Rightarrow> (Inr (acc @ concat xss), s'))"
proof (induction ts arbitrary: acc s)
  case Nil
  show ?case by simp
next
  case (Cons t ts)
  show ?case
    by (simp add: assms [of t acc s] Cons.IH split: prod.splits result.splits)
qed

lemma XeroContactsHandler_listing:
  "XeroContactsHandler env s =
     resource_listing env (finder ContactsRes (FindContacts (helpers env) (json env)) Contacts)
       (\<lambda>xs. Executed contactsTemplate (ContactsData xs)) s"
proof -
  have body: "\<And>tenant acc s'.
     (let cl = Client \<lparr>Token = fst (GetSession (repo s) uuid_Nil), UserID = uuid_Nil,
                       TenantID = Tenant.TenantID tenant\<rparr> in
      case through_client (FindContacts (helpers env) (json env) cl) (Call_Find ContactsRes cl) s' of
          (Panic p, s') \<Rightarrow> (Inl p, s')
        | (Err err, s') \<Rightarrow> (Inl (PanicError err), s')
        | (Ok None, s') \<Rightarrow> (Inl NilDereference, s')
        | (Ok (Some c), s') \<Rightarrow> (Inr (acc @ Contacts c), s'))
     = (case (finder ContactsRes (FindContacts (helpers env) (json env)) Contacts)
               (Client \<lparr>Token = fst (GetSession (repo s) uuid_Nil), UserID = uuid_Nil,
                        TenantID = Tenant.TenantID tenant\<rparr>) s' of
          (Panic p, s') \<Rightarrow> (Inl p, s')
        | (Err e, s') \<Rightarrow> (Inl (PanicError e), s')
        | (Ok xs, s') \<Rightarrow> (Inr (acc @ xs), s'))"
    by (simp add: finder_def finder_slice_def split: prod.splits result.splits option.splits)
  show ?thesis
    unfolding XeroContactsHandler_def resource_listing_def Let_def
    by (simp add: for_range_fetch [OF body [unfolded Let_def]] split: prod.splits result.splits)
qed

lemma XeroInvoicesHandler_listing:
  "XeroInvoicesHandler env s =
     resource_listing env (finder InvoicesRes (FindInvoices env) (\<lambda>x. x))
       (\<lambda>xs. Executed invoicesTemplate (InvoicesData xs)) s"
proof -
  have body: "\<And>tenant acc s'.
     (let cl = Client \<lparr>Token = fst (GetSession (repo s) uuid_Nil), UserID = uuid_Nil,
                       TenantID = Tenant.TenantID tenant\<rparr> in
      case through_client (FindInvoices env cl) (Call_Find InvoicesRes cl) s' of
          (Panic p, s') \<Rightarrow> (Inl p, s')
        | (Err err, s') \<Rightarrow> (Inl (PanicError err), s')
        | (Ok None, s') \<Rightarrow> (Inl NilDereference, s')
        | (Ok (Some i), s') \<Rightarrow> (Inr (acc @ i), s'))
     = (case (finder InvoicesRes (FindInvoices env) (\<lambda>x. x))
               (Client \<lparr>Token = fst (GetSession (repo s) uuid_Nil), UserID = uuid_Nil,
                        TenantID = Tenant.TenantID tenant\<rparr>) s' of
          (Panic p, s') \<Rightarrow> (Inl p, s')
        | (Err e, s') \<Rightarrow> (Inl (PanicError e), s')
        | (Ok xs, s') \<Rightarrow> (Inr (acc @ xs), s'))"
    by (simp add: finder_def finder_slice_def split: prod.splits result.splits option.splits)
  show ?thesis
    unfolding XeroInvoicesHandler_def resource_listing_def Let_def
    by (simp add: for_range_fetch [OF body [unfolded Let_def]] split: prod.splits result.splits)
qed

lemma XeroOrganisationsHandler_listing:
  "XeroOrganisationsHandler env s =
     resource_listing env (finder OrganisationsRes (FindOrganisations env) (\<lambda>x. x))
       (\<lambda>xs. Executed organisationsTemplate (OrganisationsData xs)) s"
proof -
  have body: "\<And>tenant acc s'.
     (let cl = Client \<lparr>Token = fst (GetSession (repo s) uuid_Nil), UserID = uuid_Nil,
                       TenantID = Tenant.TenantID tenant\<rparr> in
      case through_client (FindOrganisations env cl) (Call_Find OrganisationsRes cl) s' of
          (Panic p, s') \<Rightarrow> (Inl p, s')
        | (Err err, s') \<Rightarrow> (Inl (PanicError err), s')
        | (Ok None, s') \<Rightarrow> (Inl NilDereference, s')
        | (Ok (Some orgs), s') \<Rightarrow> (Inr (acc @ orgs), s'))
     = (case (finder OrganisationsRes (FindOrganisations env) (\<lambda>x. x))
               (Client \<lparr>Token = fst (GetSession (repo s) uuid_Nil), UserID = uuid_Nil,
                        TenantID = Tenant.TenantID tenant\<rparr>) s' of
          (Panic p, s') \<Rightarrow> (Inl p, s')
        | (Err e, s') \<Rightarrow> (Inl (PanicError e), s')
        | (Ok xs, s') \<Rightarrow> (Inr (acc @ xs), s'))"
    by (simp add: finder_def finder_slice_def split: prod.splits result.splits option.splits)
  show ?thesis
    unfolding XeroOrganisationsHandler_def resource_listing_def Let_def
    by (simp add: for_range_fetch [OF body [unfolded Let_def]] split: prod.splits result.splits)
qed

lemma XeroAccountsHandler_listing:
  "XeroAccountsHandler env s =
     resource_listing env (finder AccountsRes (\<lambda>cl. FindAccounts (helpers env) (json env) cl None) Accounts)
       (\<lambda>xs. Executed accountsTemplate (AccountsData xs)) s"
proof -
  have body: "\<And>tenant acc s'.
     (let cl = Client \<lparr>Token = fst (GetSession (repo s) uuid_Nil), UserID = uuid_Nil,
                       TenantID = Tenant.TenantID tenant\<rparr> in
      case through_client (FindAccounts (helpers env) (json env) cl None) (Call_Find AccountsRes cl) s' of
          (Panic p, s') \<Rightarrow> (Inl p, s')
        | (Err err, s') \<Rightarrow> (Inl (PanicError err), s')
        | (Ok None, s') \<Rightarrow> (Inl NilDereference, s')
        | (Ok (Some accs), s') \<Rightarrow> (Inr (acc @ Accounts accs), s'))
     = (case (finder AccountsRes (\<lambda>cl. FindAccounts (helpers env) (json env) cl None) Accounts)
               (Client \<lparr>Token = fst (GetSession (repo s) uuid_Nil), UserID = uuid_Nil,
                        TenantID = Tenant.TenantID tenant\<rparr>) s' of
          (Panic p, s') \<Rightarrow> (Inl p, s')
        | (Err e, s') \<Rightarrow> (Inl (PanicError e), s')
        | (Ok xs, s') \<Rightarrow> (Inr (acc @ xs), s'))"
    by (simp add: finder_def finder_slice_def split: prod.splits result.splits option.splits)
  show ?thesis
    unfolding XeroAccountsHandler_def resource_listing_def Let_def
    by (simp add: for_range_fetch [OF body [unfolded Let_def]] split: prod.splits result.splits)
qed

lemma XeroBankTransactionsHandler_listing:
  "XeroBankTransactionsHandler env s =
     resource_listing env (finder BankTransactionsRes (FindBankTransactions env) (\<lambda>x. x))
       (\<lambda>xs. Executed bankTransactionsTemplate (BankTransactionsData xs)) s"
proof -
  have body: "\<And>tenant acc s'.
     (let cl = Client \<lparr>Token = fst (GetSession (repo s) uuid_Nil), UserID = uuid_Nil,
                       TenantID = Tenant.TenantID tenant\<rparr> in
      case through_client (FindBankTransactions env cl) (Call_Find BankTransactionsRes cl) s' of
          (Panic p, s') \<Rightarrow> (Inl p, s')
        | (Err err, s') \<Rightarrow> (Inl (PanicError err), s')
        | (Ok None, s') \<Rightarrow> (Inl NilDereference, s')
        | (Ok (Some bankTr), s') \<Rightarrow> (Inr (acc @ bankTr), s'))
     = (case (finder BankTransactionsRes (FindBankTransactions env) (\<lambda>x. x))
               (Client \<lparr>Token = fst (GetSession (repo s) uuid_Nil), UserID = uuid_Nil,
                        TenantID = Tenant.TenantID tenant\<rparr>) s' of
          (Panic p, s') \<Rightarrow> (Inl p, s')
        | (Err e, s') \<Rightarrow> (Inl (PanicError e), s')
        | (Ok xs, s') \<Rightarrow> (Inr (acc @ xs), s'))"
    by (simp add: finder_def finder_slice_def split: prod.splits result.splits option.splits)
  show ?thesis
    unfolding XeroBankTransactionsHandler_def resource_listing_def Let_def
    by (simp add: for_range_fetch [OF body [unfolded Let_def]] split: prod.splits result.splits)
qed

lemma XeroBankTransfersHandler_listing:
  "XeroBankTransfersHandler env s =
     resource_listing env (finder BankTransfersRes (FindBankTransfers env) (\<lambda>x. x))
       (\<lambda>xs. Executed bankTransfersTemplate (BankTransfersData xs)) s"
proof -
  have body: "\<And>tenant acc s'.
     (let cl = Client \<lparr>Token = fst (GetSession (repo s) uuid_Nil), UserID = uuid_Nil,
                       TenantID = Tenant.TenantID tenant\<rparr> in
      case through_client (FindBankTransfers env cl) (Call_Find BankTransfersRes cl) s' of
          (Panic p, s') \<Rightarrow> (Inl p, s')
        | (Err err, s') \<Rightarrow> (Inl (PanicError err), s')
        | (Ok None, s') \<Rightarrow> (Inl NilDereference, s')
        | (Ok (Some bankTrns), s') \<Rightarrow> (Inr (acc @ bankTrns), s'))
     = (case (finder BankTransfersRes (FindBankTransfers env) (\<lambda>x. x))
               (Client \<lparr>Token = fst (GetSession (repo s) uuid_Nil), UserID = uuid_Nil,
                        TenantID = Tenant.TenantID tenant\<rparr>) s' of
          (Panic p, s') \<Rightarrow> (Inl p, s')
        | (Err e, s') \<Rightarrow> (Inl (PanicError e), s')
        | (Ok xs, s') \<Rightarrow> (Inr (acc @ xs), s'))"
    by (simp add: finder_def finder_slice_def split: prod.splits result.splits option.splits)
  show ?thesis
    unfolding XeroBankTransfersHandler_def resource_listing_def Let_def
    by (simp add: for_range_fetch [OF body [unfolded Let_def]] split: prod.splits result.splits)
qed

lemma XeroBrandingThemeHandler_listing:
  "XeroBrandingThemeHandler env s =
     resource_listing env (finder_slice BrandingThemesRes (FindBrandingThemes env))
       (\<lambda>xs. Executed brandingThemesTemplate (BrandingThemesData xs)) s"
proof -
  have body: "\<And>tenant acc s'.
     (let cl = Client \<lparr>Token = fst (GetSession (repo s) uuid_Nil), UserID = uuid_Nil,
                       TenantID = Tenant.TenantID tenant\<rparr> in
      case through_client (FindBrandingThemes env cl) (Call_Find BrandingThemesRes cl) s' of
          (Panic p, s') \<Rightarrow> (Inl p, s')
        | (Err err, s') \<Rightarrow> (Inl (PanicError err), s')
        | (Ok themes, s') \<Rightarrow> (Inr (acc @ themes), s'))
     = (case (finder_slice BrandingThemesRes (FindBrandingThemes env))
               (Client \<lparr>Token = fst (GetSession (repo s) uuid_Nil), UserID = uuid_Nil,
                        TenantID = Tenant.TenantID tenant\<rparr>) s' of
          (Panic p, s') \<Rightarrow> (Inl p, s')
        | (Err e, s') \<Rightarrow> (Inl (PanicError e), s')
        | (Ok xs, s') \<Rightarrow> (Inr (acc @ xs), s'))"
    by (simp add: finder_def finder_slice_def split: prod.splits result.splits option.splits)
  show ?thesis
    unfolding XeroBrandingThemeHandler_def resource_listing_def Let_def
    by (simp add: for_range_fetch [OF body [unfolded Let_def]] split: prod.splits result.splits)
qed

lemma XeroContactGroupsHandler_listing:
  "XeroContactGroupsHandler env s =
     resource_listing env (finder ContactGroupsRes (FindContactGroups env) (\<lambda>x. x))
       (\<lambda>xs. Executed contactGroupsTemplate (ContactGroupsData xs)) s"
proof -
  have body: "\<And>tenant acc s'.
     (let cl = Client \<lparr>Token = fst (GetSession (repo s) uuid_Nil), UserID = uuid_Nil,
                       TenantID = Tenant.TenantID tenant\<rparr> in
      case through_client (FindContactGroups env cl) (Call_Find ContactGroupsRes cl) s' of
          (Panic p, s') \<Rightarrow> (Inl p, s')
        | (Err err, s') \<Rightarrow> (Inl (PanicError err), s')
        | (Ok None, s') \<Rightarrow> (Inl NilDereference, s')
        | (Ok (Some groups), s') \<Rightarrow> (Inr (acc @ groups), s'))
     = (case (finder ContactGroupsRes (FindContactGroups env) (\<lambda>x. x))
               (Client \<lparr>Token = fst (GetSession (repo s) uuid_Nil), UserID = uuid_Nil,
                        TenantID = Tenant.TenantID tenant\<rparr>) s' of
          (Panic p, s') \<Rightarrow> (Inl p, s')
        | (Err e, s') \<Rightarrow> (Inl (PanicError e), s')
        | (Ok xs, s') \<Rightarrow> (Inr (acc @ xs), s'))"
    by (simp add: finder_def finder_slice_def split: prod.splits result.splits option.splits)
  show ?thesis
    unfolding XeroContactGroupsHandler_def resource_listing_def Let_def
    by (simp add: for_range_fetch [OF body [unfolded Let_def]] split: prod.splits result.splits)
qed

lemma XeroCreditNotesHandler_listing:
  "XeroCreditNotesHandler env s =
     resource_listing env (finder CreditNotesRes (FindCreditNotes env) (\<lambda>x. x))
       (\<lambda>xs. Executed creditNotesTemplate (CreditNotesData xs)) s"
proof -
  have body: "\<And>tenant acc s'.
     (let cl = Client \<lparr>Token = fst (GetSession (repo s) uuid_Nil), UserID = uuid_Nil,
                       TenantID = Tenant.TenantID tenant\<rparr> in
      case through_client (FindCreditNotes env cl) (Call_Find CreditNotesRes cl) s' of
          (Panic p, s') \<Rightarrow> (Inl p, s')
        | (Err err, s') \<Rightarrow> (Inl (PanicError err), s')
        | (Ok None, s') \<Rightarrow> (Inl NilDereference, s')
        | (Ok (Some notes), s') \<Rightarrow> (Inr (acc @ notes), s'))
     = (case (finder CreditNotesRes (FindCreditNotes env) (\<lambda>x. x))
               (Client \<lparr>Token = fst (GetSession (repo s) uuid_Nil), UserID = uuid_Nil,
                        TenantID = Tenant.TenantID tenant\<rparr>) s' of
          (Panic p, s') \<Rightarrow> (Inl p, s')
        | (Err e, s') \<Rightarrow> (Inl (PanicError e), s')
        | (Ok xs, s') \<Rightarrow> (Inr (acc @ xs), s'))"
    by (simp add: finder_def finder_slice_def split: prod.splits result.splits option.splits)
  show ?thesis
    unfolding XeroCreditNotesHandler_def resource_listing_def Let_def
    by (simp add: for_range_fetch [OF body [unfolded Let_def]] split: prod.splits result.splits)
qed

lemma XeroCurrencyHandler_listing:
  "XeroCurrencyHandler env s =
     resource_listing env (finder CurrenciesRes (FindCurrencies env) (\<lambda>x. x))
       (\<lambda>xs. Executed currenciesTemplate (CurrenciesData xs)) s"
proof -
  have body: "\<And>tenant acc s'.
     (let cl = Client \<lparr>Token = fst (GetSession (repo s) uuid_Nil), UserID = uuid_Nil,
                       TenantID = Tenant.TenantID tenant\<rparr> in
      case through_client (FindCurrencies env cl) (Call_Find CurrenciesRes cl) s' of
          (Panic p, s') \<Rightarrow> (Inl p, s')
        | (Err err, s') \<Rightarrow> (Inl (PanicError err), s')
        | (Ok None, s') \<Rightarrow> (Inl NilDereference, s')
        | (Ok (Some c), s') \<Rightarrow> (Inr (acc @ c), s'))
     = (case (finder CurrenciesRes (FindCurrencies env) (\<lambda>x. x))
               (Client \<lparr>Token = fst (GetSession (repo s) uuid_Nil), UserID = uuid_Nil,
                        TenantID = Tenant.TenantID tenant\<rparr>) s' of
          (Panic p, s') \<Rightarrow> (Inl p, s')
        | (Err e, s') \<Rightarrow> (Inl (PanicError e), s')
        | (Ok xs, s') \<Rightarrow> (Inr (acc @ xs), s'))"
    by (simp add: finder_def finder_slice_def split: prod.splits result.splits option.splits)
  show ?thesis
    unfolding XeroCurrencyHandler_def resource_listing_def Let_def
    by (simp add: for_range_fetch [OF body [unfolded Let_def]] split: prod.splits result.splits)
qed

lemma XeroEmployeesHandler_listing:
  "XeroEmployeesHandler env s =
     resource_listing env (finder EmployeesRes (FindEmployees env) (\<lambda>x. x))
       (\<lambda>xs. Executed employeesTemplate (EmployeesData xs)) s"
proof -
  have body: "\<And>tenant acc s'.
     (let cl = Client \<lparr>Token = fst (GetSession (repo s) uuid_Nil), UserID = uuid_Nil,
                       TenantID = Tenant.TenantID tenant\<rparr> in
      case through_client (FindEmployees env cl) (Call_Find EmployeesRes cl) s' of
          (Panic p, s') \<Rightarrow> (Inl p, s')
        | (Err err, s') \<Rightarrow> (Inl (PanicError err), s')
        | (Ok None, s') \<Rightarrow> (Inl NilDereference, s')
        | (Ok (Some e), s') \<Rightarrow> (Inr (acc @ e), s'))
     = (case (finder EmployeesRes (FindEmployees env) (\<lambda>x. x))
               (Client \<lparr>Token = fst (GetSession (repo s) uuid_Nil), UserID = uuid_Nil,
                        TenantID = Tenant.TenantID tenant\<rparr>) s' of
          (Panic p, s') \<Rightarrow> (Inl p, s')
        | (Err e, s') \<Rightarrow> (Inl (PanicError e), s')
        | (Ok xs, s') \<Rightarrow> (Inr (acc @ xs), s'))"
    by (simp add: finder_def finder_slice_def split: prod.splits result.splits option.splits)
  show ?thesis
    unfolding XeroEmployeesHandler_def resource_listing_def Let_def
    by (simp add: for_range_fetch [OF body [unfolded Let_def]] split: prod.splits result.splits)
qed

lemma XeroInvoiceRemindersHandler_listing:
  "XeroInvoiceRemindersHandler env s =
     resource_listing env (finder InvoiceRemindersRes (FindInvoiceReminders env) (\<lambda>x. x))
       (\<lambda>xs. Executed invoiceRemindersTemplate (InvoiceRemindersData xs)) s"
proof -
  have body: "\<And>tenant acc s'.
     (let cl = Client \<lparr>Token = fst (GetSession (repo s) uuid_Nil), UserID = uuid_Nil,
                       TenantID = Tenant.TenantID tenant\<rparr> in
      case through_client (FindInvoiceReminders env cl) (Call_Find InvoiceRemindersRes cl) s' of
          (Panic p, s') \<Rightarrow> (Inl p, s')
        | (Err err, s') \<Rightarrow> (Inl (PanicError err), s')
        | (Ok None, s') \<Rightarrow> (Inl NilDereference, s')
        | (Ok (Some rem), s') \<Rightarrow> (Inr (acc @ rem), s'))
     = (case (finder InvoiceRemindersRes (FindInvoiceReminders env) (\<lambda>x. x))
               (Client \<lparr>Token = fst (GetSession (repo s) uuid_Nil), UserID = uuid_Nil,
                        TenantID = Tenant.TenantID tenant\<rparr>) s' of
          (Panic p, s') \<Rightarrow> (Inl p, s')
        | (Err e, s') \<Rightarrow> (Inl (PanicError e), s')
        | (Ok xs, s') \<Rightarrow> (Inr (acc @ xs), s'))"
    by (simp add: finder_def finder_slice_def split: prod.splits result.splits option.splits)
  show ?thesis
    unfolding XeroInvoiceRemindersHandler_def resource_listing_def Let_def
    by (simp add: for_range_fetch [OF body [unfolded Let_def]] split: prod.splits result.splits)
qed

lemma XeroInvoiceItemsHandler_listing:
  "XeroInvoiceItemsHandler env s =
     resource_listing env (finder ItemsRes (FindItems env) (\<lambda>x. x))
       (\<lambda>xs. Executed invoiceItemsTemplate (InvoiceItemsData xs)) s"
proof -
  have body: "\<And>tenant acc s'.
     (let cl = Client \<lparr>Token = fst (GetSession (repo s) uuid_Nil), UserID = uuid_Nil,
                       TenantID = Tenant.TenantID tenant\<rparr> in
      case through_client (FindItems env cl) (Call_Find ItemsRes cl) s' of
          (Panic p, s') \<Rightarrow> (Inl p, s')
        | (Err err, s') \<Rightarrow> (Inl (PanicError err), s')
        | (Ok None, s') \<Rightarrow> (Inl NilDereference, s')
        | (Ok (Some its), s') \<Rightarrow> (Inr (acc @ its), s'))
     = (case (finder ItemsRes (FindItems env) (\<lambda>x. x))
               (Client \<lparr>Token = fst (GetSession (repo s) uuid_Nil), UserID = uuid_Nil,
                        TenantID = Tenant.TenantID tenant\<rparr>) s' of
          (Panic p, s') \<Rightarrow> (Inl p, s')
        | (Err e, s') \<Rightarrow> (Inl (PanicError e), s')
        | (Ok xs, s') \<Rightarrow> (Inr (acc @ xs), s'))"
    by (simp add: finder_def finder_slice_def split: prod.splits result.splits option.splits)
  show ?thesis
    unfolding XeroInvoiceItemsHandler_def resource_listing_def Let_def
    by (simp add: for_range_fetch [OF body [unfolded Let_def]] split: prod.splits result.splits)
qed

text \<open>
  C2. Each of the thirteen resource-listing handlers is the listing of section 4.5 at
  its own resource: it loads the session of the nil user, builds the client for it,
  resolves the tenants, fetches the resource of every tenant in the order of the tenants
  and concatenates what it gets in that order, and hands the concatenation to its
  template; an error on the way aborts the handling. The handlers differ in the function
  that fetches, the field that holds the collection and the template, and in nothing
  else.
\<close>

theorem listing_handlers_share_one_loop:
  "XeroContactsHandler env =
       resource_listing env (finder ContactsRes (FindContacts (helpers env) (json env)) Contacts)
         (\<lambda>xs. Executed contactsTemplate (ContactsData xs))
   \<and> XeroInvoicesHandler env =
       resource_listing env (finder InvoicesRes (FindInvoices env) (\<lambda>x. x))
         (\<lambda>xs. Executed invoicesTemplate (InvoicesData xs))
   \<and> XeroOrganisationsHandler env =
       resource_listing env (finder OrganisationsRes (FindOrganisations env) (\<lambda>x. x))
         (\<lambda>xs. Executed organisationsTemplate (OrganisationsData xs))
   \<and> XeroAccountsHandler env =
       resource_listing env (finder AccountsRes (\<lambda>cl. FindAccounts (helpers env) (json env) cl None) Accounts)
         (\<lambda>xs. Executed accountsTemplate (AccountsData xs))
   \<and> XeroBankTransactionsHandler env =
       resource_listing env (finder BankTransactionsRes (FindBankTransactions env) (\<lambda>x. x))
         (\<lambda>xs. Executed bankTransactionsTemplate (BankTransactionsData xs))
   \<and> XeroBankTransfersHandler env =
       resource_listing env (finder BankTransfersRes (FindBankTransfers env) (\<lambda>x. x))
         (\<lambda>xs. Executed bankTransfersTemplate (BankTransfersData xs))
   \<and> XeroBrandingThemeHandler env =
       resource_listing env (finder_slice BrandingThemesRes (FindBrandingThemes env))
         (\<lambda>xs. Executed brandingThemesTemplate (BrandingThemesData xs))
   \<and> XeroContactGroupsHandler env =
       resource_listing env (finder ContactGroupsRes (FindContactGroups env) (\<lambda>x. x))
         (\<lambda>xs. Executed contactGroupsTemplate (ContactGroupsData xs))
   \<and> XeroCreditNotesHandler env =
       resource_listing env (finder CreditNotesRes (FindCreditNotes env) (\<lambda>x. x))
         (\<lambda>xs. Executed creditNotesTemplate (CreditNotesData xs))
   \<and> XeroCurrencyHandler env =
       resource_listing env (finder CurrenciesRes (FindCurrencies env) (\<lambda>x. x))
         (\<lambda>xs. Executed currenciesTemplate (CurrenciesData xs))
   \<and> XeroEmployeesHandler env =
       resource_listing env (finder EmployeesRes (FindEmployees env) (\<lambda>x. x))
         (\<lambda>xs. Executed employeesTemplate (EmployeesData xs))
   \<and> XeroInvoiceRemindersHandler env =
       resource_listing env (finder InvoiceRemindersRes (FindInvoiceReminders env) (\<lambda>x. x))
         (\<lambda>xs. Executed invoiceRemindersTemplate (InvoiceRemindersData xs))
   \<and> XeroInvoiceItemsHandler env =
       resource_listing env (finder ItemsRes (FindItems env) (\<lambda>x. x))
         (\<lambda>xs. Executed invoiceItemsTemplate (InvoiceItemsData xs))"
  by (intro conjI ext)
     (rule XeroContactsHandler_listing
        XeroInvoicesHandler_listing
        XeroOrganisationsHandler_listing
        XeroAccountsHandler_listing
        XeroBankTransactionsHandler_listing
        XeroBankTransfersHandler_listing
        XeroBrandingThemeHandler_listing
        XeroContactGroupsHandler_listing
        XeroCreditNotesHandler_listing
        XeroCurrencyHandler_listing
        XeroEmployeesHandler_listing
        XeroInvoiceRemindersHandler_listing
        XeroInvoiceItemsHandler_listing)+

section \<open>The calls a handler makes\<close>

lemma fail_loudly_Cons_returned:
  "fail_loudly [Event c st] None \<Longrightarrow> fail_loudly (Event c st # evs) a = fail_loudly evs a"
  by (cases st) simp_all

lemma fail_loudly_status_of:
  "fail_loudly [Event c (status_of r)] (abort_of_result r)"
  by (cases r) simp_all

text \<open>
  Every lemma below has the same shape: from one state to the next some calls were
  added to the record, none of them a call of \<open>Refresh\<close>, and they fail loudly.
\<close>

lemma calls_added:
  assumes "calls s' = calls s @ evs"
  shows "new_calls s s' = evs"
  using assms by (simp add: new_calls_def)

lemma fetch_every_tenant_calls:
  assumes one: "\<And>t s r s'. fetch t s = (r, s') \<Longrightarrow>
      \<exists>c st. calls s' = calls s @ [Event c st] \<and> \<not> is_Call_Refresh (Event c st)
        \<and> fail_loudly [Event c st] (abort_of_result r)"
  shows "fetch_every_tenant fetch ts s = (r, s') \<Longrightarrow>
      \<exists>evs. calls s' = calls s @ evs \<and> list_all (\<lambda>ev. \<not> is_Call_Refresh ev) evs
        \<and> fail_loudly evs (abort_of_result r)"
proof (induction ts arbitrary: s r s')
  case Nil
  then show ?case by simp
next
  case (Cons t ts)
  obtain r1 s1 where f: "fetch t s = (r1, s1)" by (cases "fetch t s")
  from one [OF f] obtain c st where ev: "calls s1 = calls s @ [Event c st]"
    and q: "\<not> is_Call_Refresh (Event c st)"
    and l: "fail_loudly [Event c st] (abort_of_result r1)" by blast
  show ?case
  proof (cases r1)
    case (Ok xs)
    obtain r2 s2 where rec: "fetch_every_tenant fetch ts s1 = (r2, s2)"
      by (cases "fetch_every_tenant fetch ts s1")
    from Cons.IH [OF rec] obtain evs where evs: "calls s2 = calls s1 @ evs"
      and qs: "list_all (\<lambda>ev. \<not> is_Call_Refresh ev) evs"
      and ls: "fail_loudly evs (abort_of_result r2)" by blast
    from Cons.prems f Ok rec have s': "s' = s2" and r: "abort_of_result r = abort_of_result r2"
      by (auto split: result.splits)
    from l Ok have "fail_loudly (Event c st # evs) (abort_of_result r2) = fail_loudly evs (abort_of_result r2)"
      by (simp add: fail_loudly_Cons_returned)
    with ls ev evs q qs s' r show ?thesis
      by (intro exI [of _ "Event c st # evs"]) simp
  next
    case (Err e)
    with Cons.prems f have "s' = s1" "abort_of_result r = abort_of_result r1" by auto
    with ev q l show ?thesis by (intro exI [of _ "[Event c st]"]) simp
  next
    case (Panic p)
    with Cons.prems f have "s' = s1" "abort_of_result r = abort_of_result r1" by auto
    with ev q l show ?thesis by (intro exI [of _ "[Event c st]"]) simp
  qed
qed

lemma finder_calls:
  assumes "finder res f field cl s = (r, s')"
  shows "\<exists>c st. calls s' = calls s @ [Event c st] \<and> \<not> is_Call_Refresh (Event c st)
        \<and> fail_loudly [Event c st] (abort_of_result r)"
proof -
  obtain raw s1 where t: "through_client (f cl) (Call_Find res cl) s = (raw, s1)"
    by (cases "through_client (f cl) (Call_Find res cl) s")
  from through_client_calls [OF t]
  have ev: "calls s1 = calls s @ [Event (Call_Find res cl) (status_of raw)]" .
  from assms t have s': "s' = s1"
    by (auto simp: finder_def split: result.splits option.splits)
  from assms t have "fail_loudly [Event (Call_Find res cl) (status_of raw)] (abort_of_result r)"
    by (auto simp: finder_def split: result.splits option.splits)
  with ev s' show ?thesis by auto
qed

lemma finder_slice_calls:
  assumes "finder_slice res f cl s = (r, s')"
  shows "\<exists>c st. calls s' = calls s @ [Event c st] \<and> \<not> is_Call_Refresh (Event c st)
        \<and> fail_loudly [Event c st] (abort_of_result r)"
  using through_client_calls [of "f cl" "Call_Find res cl" s r s'] assms
    fail_loudly_status_of [of "Call_Find res cl" r]
  by (auto simp: finder_slice_def)

lemma resource_listing_calls:
  assumes one: "\<And>cl s r s'. fetch cl s = (r, s') \<Longrightarrow>
      \<exists>c st. calls s' = calls s @ [Event c st] \<and> \<not> is_Call_Refresh (Event c st)
        \<and> fail_loudly [Event c st] (abort_of_result r)"
    and res: "resource_listing env fetch render s = (out, s')"
  shows "\<exists>evs. calls s' = calls s @ evs \<and> list_all (\<lambda>ev. \<not> is_Call_Refresh ev) evs
        \<and> fail_loudly evs (abort_of out)"
proof -
  let ?se = "fst (GetSession (repo s) uuid_Nil)"
  let ?cl = "\<lambda>tenantID. Client \<lparr>Token = ?se, UserID = uuid_Nil, TenantID = tenantID\<rparr>"
  obtain rt s1 where g: "GetTenants_call env (?cl uuid_Nil) s = (rt, s1)"
    by (cases "GetTenants_call env (?cl uuid_Nil) s")
  from through_client_calls [OF g [unfolded GetTenants_call_def]]
  have ev: "calls s1 = calls s @ [Event (Call_GetTenants (?cl uuid_Nil)) (status_of rt)]" .
  show ?thesis
  proof (cases rt)
    case (Ok tenants)
    obtain r2 s2 where
      f: "fetch_every_tenant (\<lambda>t. fetch (?cl (Tenant.TenantID t))) tenants s1 = (r2, s2)"
      by (cases "fetch_every_tenant (\<lambda>t. fetch (?cl (Tenant.TenantID t))) tenants s1")
    have "\<exists>evs. calls s2 = calls s1 @ evs \<and> list_all (\<lambda>ev. \<not> is_Call_Refresh ev) evs
        \<and> fail_loudly evs (abort_of_result r2)"
      by (rule fetch_every_tenant_calls [OF _ f]) (rule one)
    then obtain evs where evs: "calls s2 = calls s1 @ evs"
      and qs: "list_all (\<lambda>ev. \<not> is_Call_Refresh ev) evs"
      and ls: "fail_loudly evs (abort_of_result r2)" by blast
    from res g Ok f have "s' = s2" "abort_of out = abort_of_result r2"
      by (auto simp: resource_listing_def Let_def split: result.splits)
    with ev Ok evs qs ls show ?thesis
      by (intro exI [of _ "Event (Call_GetTenants (?cl uuid_Nil)) Returned # evs"]) simp
  next
    case (Err e)
    with res g have "s' = s1" "out = Aborted (PanicError e)"
      by (auto simp: resource_listing_def Let_def)
    with ev Err show ?thesis
      by (intro exI [of _ "[Event (Call_GetTenants (?cl uuid_Nil)) (Failed e)]"]) simp
  next
    case (Panic p)
    with res g have "s' = s1" "out = Aborted p"
      by (auto simp: resource_listing_def Let_def)
    with ev Panic show ?thesis
      by (intro exI [of _ "[Event (Call_GetTenants (?cl uuid_Nil)) (Crashed p)]"]) simp
  qed
qed

lemma quiet_callsI:
  assumes "\<exists>evs. calls (snd res) = calls s @ evs \<and> list_all (\<lambda>ev. \<not> is_Call_Refresh ev) evs
        \<and> fail_loudly evs (abort_of (fst res))"
  shows "fails_loudly s res \<and> never_refreshes s res"
  using assms by (auto simp: fails_loudly_def never_refreshes_def new_calls_def)

lemma listing_quiet:
  assumes "\<And>cl s r s'. fetch cl s = (r, s') \<Longrightarrow>
      \<exists>c st. calls s' = calls s @ [Event c st] \<and> \<not> is_Call_Refresh (Event c st)
        \<and> fail_loudly [Event c st] (abort_of_result r)"
  shows "fails_loudly s (resource_listing env fetch render s)
       \<and> never_refreshes s (resource_listing env fetch render s)"
proof (rule quiet_callsI)
  obtain out s' where r: "resource_listing env fetch render s = (out, s')"
    by (cases "resource_listing env fetch render s")
  from resource_listing_calls [OF assms r] r
  show "\<exists>evs. calls (snd (resource_listing env fetch render s)) = calls s @ evs
          \<and> list_all (\<lambda>ev. \<not> is_Call_Refresh ev) evs
          \<and> fail_loudly evs (abort_of (fst (resource_listing env fetch render s)))"
    by simp
qed

lemma XeroContactsHandler_quiet:
  "fails_loudly s (XeroContactsHandler env s) \<and> never_refreshes s (XeroContactsHandler env s)"
  by (simp only: XeroContactsHandler_listing, rule listing_quiet, erule finder_calls)

lemma XeroInvoicesHandler_quiet:
  "fails_loudly s (XeroInvoicesHandler env s) \<and> never_refreshes s (XeroInvoicesHandler env s)"
  by (simp only: XeroInvoicesHandler_listing, rule listing_quiet, erule finder_calls)

lemma XeroOrganisationsHandler_quiet:
  "fails_loudly s (XeroOrganisationsHandler env s) \<and> never_refreshes s (XeroOrganisationsHandler env s)"
  by (simp only: XeroOrganisationsHandler_listing, rule listing_quiet, erule finder_calls)

lemma XeroAccountsHandler_quiet:
  "fails_loudly s (XeroAccountsHandler env s) \<and> never_refreshes s (XeroAccountsHandler env s)"
  by (simp only: XeroAccountsHandler_listing, rule listing_quiet, erule finder_calls)

lemma XeroBankTransactionsHandler_quiet:
  "fails_loudly s (XeroBankTransactionsHandler env s) \<and> never_refreshes s (XeroBankTransactionsHandler env s)"
  by (simp only: XeroBankTransactionsHandler_listing, rule listing_quiet, erule finder_calls)

lemma XeroBankTransfersHandler_quiet:
  "fails_loudly s (XeroBankTransfersHandler env s) \<and> never_refreshes s (XeroBankTransfersHandler env s)"
  by (simp only: XeroBankTransfersHandler_listing, rule listing_quiet, erule finder_calls)

lemma XeroBrandingThemeHandler_quiet:
  "fails_loudly s (XeroBrandingThemeHandler env s) \<and> never_refreshes s (XeroBrandingThemeHandler env s)"
  by (simp only: XeroBrandingThemeHandler_listing, rule listing_quiet, erule finder_slice_calls)

lemma XeroContactGroupsHandler_quiet:
  "fails_loudly s (XeroContactGroupsHandler env s) \<and> never_refreshes s (XeroContactGroupsHandler env s)"
  by (simp only: XeroContactGroupsHandler_listing, rule listing_quiet, erule finder_calls)

lemma XeroCreditNotesHandler_quiet:
  "fails_loudly s (XeroCreditNotesHandler env s) \<and> never_refreshes s (XeroCreditNotesHandler env s)"
  by (simp only: XeroCreditNotesHandler_listing, rule listing_quiet, erule finder_calls)

lemma XeroCurrencyHandler_quiet:
  "fails_loudly s (XeroCurrencyHandler env s) \<and> never_refreshes s (XeroCurrencyHandler env s)"
  by (simp only: XeroCurrencyHandler_listing, rule listing_quiet, erule finder_calls)

lemma XeroEmployeesHandler_quiet:
  "fails_loudly s (XeroEmployeesHandler env s) \<and> never_refreshes s (XeroEmployeesHandler env s)"
  by (simp only: XeroEmployeesHandler_listing, rule listing_quiet, erule finder_calls)

lemma XeroInvoiceRemindersHandler_quiet:
  "fails_loudly s (XeroInvoiceRemindersHandler env s) \<and> never_refreshes s (XeroInvoiceRemindersHandler env s)"
  by (simp only: XeroInvoiceRemindersHandler_listing, rule listing_quiet, erule finder_calls)

lemma XeroInvoiceItemsHandler_quiet:
  "fails_loudly s (XeroInvoiceItemsHandler env s) \<and> never_refreshes s (XeroInvoiceItemsHandler env s)"
  by (simp only: XeroInvoiceItemsHandler_listing, rule listing_quiet, erule finder_calls)

lemmas listing_handlers_quiet =
  XeroContactsHandler_quiet
  XeroInvoicesHandler_quiet
  XeroOrganisationsHandler_quiet
  XeroAccountsHandler_quiet
  XeroBankTransactionsHandler_quiet
  XeroBankTransfersHandler_quiet
  XeroBrandingThemeHandler_quiet
  XeroContactGroupsHandler_quiet
  XeroCreditNotesHandler_quiet
  XeroCurrencyHandler_quiet
  XeroEmployeesHandler_quiet
  XeroInvoiceRemindersHandler_quiet
  XeroInvoiceItemsHandler_quiet

lemma HomeHandler_quiet:
  "fails_loudly s (HomeHandler env s) \<and> never_refreshes s (HomeHandler env s)"
  by (simp add: HomeHandler_def Let_def fails_loudly_def never_refreshes_def new_calls_def)

lemma StartXeroAuthHandler_quiet:
  "fails_loudly s (StartXeroAuthHandler env s) \<and> never_refreshes s (StartXeroAuthHandler env s)"
  by (simp add: StartXeroAuthHandler_def fails_loudly_def never_refreshes_def new_calls_def)

lemma XeroAuthCallbackHandler_quiet:
  "fails_loudly s (XeroAuthCallbackHandler env code s)
   \<and> never_refreshes s (XeroAuthCallbackHandler env code s)"
  by (auto simp: XeroAuthCallbackHandler_def through_provider_def fails_loudly_def
        never_refreshes_def new_calls_def Let_def split: prod.splits result.splits)

lemma XeroConnectionsHandler_quiet:
  "fails_loudly s (XeroConnectionsHandler env s) \<and> never_refreshes s (XeroConnectionsHandler env s)"
  by (auto simp: XeroConnectionsHandler_def GetTenants_call_def through_client_def
        fails_loudly_def never_refreshes_def new_calls_def Let_def
        split: prod.splits result.splits)

lemma XeroRefreshTokenHandler_loud:
  "fails_loudly s (XeroRefreshTokenHandler env s)"
  by (auto simp: XeroRefreshTokenHandler_def through_provider_def fails_loudly_def
        new_calls_def Let_def split: prod.splits result.splits)

lemma XeroContactsCreateHandler_quiet:
  "fails_loudly s (XeroContactsCreateHandler env s)
   \<and> never_refreshes s (XeroContactsCreateHandler env s)"
  by (auto simp: XeroContactsCreateHandler_def GetTenants_call_def through_client_def
        fails_loudly_def never_refreshes_def new_calls_def Let_def
        split: prod.splits result.splits list.splits)

lemma serve_fails_loudly: "fails_loudly s (serve env r s)"
  by (simp add: serve_def listing_handlers_quiet HomeHandler_quiet StartXeroAuthHandler_quiet
        XeroAuthCallbackHandler_quiet XeroConnectionsHandler_quiet XeroRefreshTokenHandler_loud
        XeroContactsCreateHandler_quiet)
     (simp add: fails_loudly_def new_calls_def)

lemma serve_never_refreshes: "Path r \<noteq> ''/refresh'' \<Longrightarrow> never_refreshes s (serve env r s)"
  by (simp add: serve_def listing_handlers_quiet HomeHandler_quiet StartXeroAuthHandler_quiet
        XeroAuthCallbackHandler_quiet XeroConnectionsHandler_quiet
        XeroContactsCreateHandler_quiet)
     (simp add: never_refreshes_def new_calls_def)

section \<open>Claims about the web application\<close>


text \<open>
  C6. Whatever the request and whatever the platform does: a call of the provider, the
  tenant resolver or a resource function that returns an error is the last call the
  handler makes, and the handling of the request is aborted with \<open>log.Panic\<close> of that
  error; no response is written.
\<close>

theorem errors_abort_the_handler:
  "fails_loudly s (serve env r s)"
  by (rule serve_fails_loudly)

lemma example_GetTenants_start:
  "GetTenants_call example_env (Client \<lparr>Token = None, UserID = uuid_Nil, TenantID = uuid_Nil\<rparr>)
     example_start
   = (Err (AuthError ''no token''),
      example_start\<lparr>calls :=
        [Event (Call_GetTenants (Client \<lparr>Token = None, UserID = uuid_Nil, TenantID = uuid_Nil\<rparr>))
           (Failed (AuthError ''no token''))]\<rparr>)"
  by (simp add: GetTenants_call_def through_client_def example_env_def example_start_def)

text \<open>
  C5, as stated: a GET to \<open>/connections\<close> before any session exists is answered with
  401. On the platform whose tenant resolver returns an \<open>AuthError\<close> for a client
  without a token, the handler panics with that error and writes no response.
\<close>

theorem connections_without_session_counterexample:
  "fst (serve example_env (GET ''/connections'') example_start)
     = Aborted (PanicError (AuthError ''no token''))
   \<and> status_code (fst (serve example_env (GET ''/connections'') example_start)) \<noteq> Some 401"
proof -
  have n: "repo example_start uuid_Nil = None" by (simp add: example_start_def)
  show ?thesis
    by (simp add: serve_def GET_def XeroConnectionsHandler_def GetSession_def Let_def n
          example_GetTenants_start)
qed

text \<open>
  C5, amended. A GET to \<open>/connections\<close> before any session exists resolves the tenants
  with a client that carries no token. When that call returns an error, an \<open>AuthError\<close>
  among them, the handler panics with the error and writes no response; when it returns
  tenants, the handler writes them as JSON with status 200. It never answers 401.
\<close>

theorem connections_without_session:
  assumes "Path r = ''/connections''" and "repo s uuid_Nil = None"
    and "GetTenants_call env (Client \<lparr>Token = None, UserID = uuid_Nil, TenantID = uuid_Nil\<rparr>) s
           = (res, s1)"
  shows "serve env r s =
           (case res of
              Ok tenants \<Rightarrow> Responded (Encoded (TenantsData tenants))
            | Err e \<Rightarrow> Aborted (PanicError e)
            | Panic p \<Rightarrow> Aborted p, s1)
         \<and> status_code (fst (serve env r s)) \<noteq> Some 401"
  using assms
  by (cases res) (simp_all add: serve_def XeroConnectionsHandler_def GetSession_def Let_def)

theorem connections_without_session_witness:
  "Path (GET ''/connections'') = ''/connections'' \<and> repo example_start uuid_Nil = None
   \<and> fst (serve example_env (GET ''/connections'') example_start)
       = Aborted (PanicError (AuthError ''no token''))
   \<and> calls (snd (serve example_env (GET ''/connections'') example_start))
       = [Event (Call_GetTenants (Client \<lparr>Token = None, UserID = uuid_Nil, TenantID = uuid_Nil\<rparr>))
            (Failed (AuthError ''no token''))]"
proof -
  have p: "Path (GET ''/connections'') = ''/connections''" by (simp add: GET_def)
  have n: "repo example_start uuid_Nil = None" by (simp add: example_start_def)
  from connections_without_session [OF p n example_GetTenants_start] p n
  show ?thesis by simp
qed


text \<open>
  C7. A GET to \<open>/\<close> renders the not-connected page (\<open>indexTemplate\<close>) when no session
  is stored for the nil user, and the connected page (\<open>connectedTemplate\<close>) with the
  stored token as its data when one is. A callback whose code the provider exchanges
  for a token renders the connected page with that token and stores it, so that a GET
  to \<open>/\<close> after it renders the connected page with the token.
\<close>

theorem home_page_follows_the_session:
  "(Path r = ''/'' \<longrightarrow> repo s uuid_Nil = None \<longrightarrow>
      serve env r s = (Responded (Executed indexTemplate (TokenData None)), s))
   \<and> (Path r = ''/'' \<longrightarrow> repo s uuid_Nil = Some token \<longrightarrow>
      serve env r s = (Responded (Executed connectedTemplate (TokenData (Some token))), s))
   \<and> (Path cb = ''/auth/xero/callback'' \<longrightarrow>
      GetTokenFromCode env (FormValue cb ''code'') (world s) = (Ok token, w') \<longrightarrow>
      Path r = ''/'' \<longrightarrow>
        fst (serve env cb s) = Responded (Executed connectedTemplate (TokenData (Some token)))
        \<and> repo (snd (serve env cb s)) uuid_Nil = Some token
        \<and> fst (serve env r (snd (serve env cb s)))
            = Responded (Executed connectedTemplate (TokenData (Some token))))"
  by (simp add: serve_def HomeHandler_def XeroAuthCallbackHandler_def GetSession_def
        CreateSession_def through_provider_def Let_def)

theorem home_page_follows_the_session_witness:
  "Path (GET ''/'') = ''/'' \<and> repo example_start uuid_Nil = None
   \<and> fst (serve example_env (GET ''/'') example_start)
       = Responded (Executed indexTemplate (TokenData None))
   \<and> Path \<lparr>Path = ''/auth/xero/callback'', Form = [''code'' \<mapsto> ''fake-code'']\<rparr>
       = ''/auth/xero/callback''
   \<and> GetTokenFromCode example_env
        (FormValue \<lparr>Path = ''/auth/xero/callback'', Form = [''code'' \<mapsto> ''fake-code'']\<rparr> ''code'')
        (world example_start) = (Ok (example_Token ''a'' 1000), ())
   \<and> fst (serve example_env (GET ''/'')
         (snd (serve example_env
                \<lparr>Path = ''/auth/xero/callback'', Form = [''code'' \<mapsto> ''fake-code'']\<rparr>
                example_start)))
       = Responded (Executed connectedTemplate (TokenData (Some (example_Token ''a'' 1000))))"
proof -
  let ?cb = "\<lparr>Path = ''/auth/xero/callback'', Form = [''code'' \<mapsto> ''fake-code'']\<rparr>"
  have p: "Path (GET ''/'') = ''/''" by (simp add: GET_def)
  have n: "repo example_start uuid_Nil = None" by (simp add: example_start_def)
  have c: "Path ?cb = ''/auth/xero/callback''" by simp
  have g: "GetTokenFromCode example_env (FormValue ?cb ''code'') (world example_start)
             = (Ok (example_Token ''a'' 1000), ())"
    by (simp add: example_env_def FormValue_def)
  note T = home_page_follows_the_session
    [where r = "GET ''/''" and s = example_start and env = example_env and cb = ?cb
       and token = "example_Token ''a'' 1000" and w' = "()"]
  from T p n have "fst (serve example_env (GET ''/'') example_start)
       = Responded (Executed indexTemplate (TokenData None))"
    by simp
  moreover from T p c g have "fst (serve example_env (GET ''/'')
         (snd (serve example_env ?cb example_start)))
       = Responded (Executed connectedTemplate (TokenData (Some (example_Token ''a'' 1000))))"
    by blast
  ultimately show ?thesis using p n c g by simp
qed

text \<open>
  C8. A GET to \<open>/refresh\<close> with a stored session passes the stored token to
  \<open>Provider.Refresh\<close>. When that returns a new token the handler stores it with
  \<open>UpdateSession\<close> under the same (nil) user and answers with a redirect to \<open>/\<close>; when
  it returns an error the handler panics with it (C6) and the store is left as it was.
\<close>

theorem refresh_persists_and_redirects:
  assumes "Path r = ''/refresh''" and "repo s uuid_Nil = Some token"
  shows "serve env r s =
     (case Refresh env (Some token) (world s) of
        (Ok newToken, w') \<Rightarrow>
          (Responded (Redirected ''/'' StatusFound),
           \<lparr>repo = (repo s)(uuid_Nil \<mapsto> newToken), world = w',
            calls = calls s @ [Event (Call_Refresh (Some token)) Returned]\<rparr>)
      | (Err e, w') \<Rightarrow>
          (Aborted (PanicError e),
           \<lparr>repo = repo s, world = w',
            calls = calls s @ [Event (Call_Refresh (Some token)) (Failed e)]\<rparr>)
      | (Panic p, w') \<Rightarrow>
          (Aborted p,
           \<lparr>repo = repo s, world = w',
            calls = calls s @ [Event (Call_Refresh (Some token)) (Crashed p)]\<rparr>))"
  using assms
  by (simp add: serve_def XeroRefreshTokenHandler_def GetSession_def UpdateSession_def
        through_provider_def Let_def split: prod.splits result.splits)

theorem refresh_persists_and_redirects_witness:
  "Path (GET ''/refresh'') = ''/refresh''
   \<and> repo example_connected uuid_Nil = Some (example_Token ''a'' 1000)
   \<and> Refresh example_env (Some (example_Token ''a'' 1000)) (world example_connected)
       = (Ok (example_Token ''a+'' 2800), ())
   \<and> fst (serve example_env (GET ''/refresh'') example_connected)
       = Responded (Redirected ''/'' 302)
   \<and> repo (snd (serve example_env (GET ''/refresh'') example_connected)) uuid_Nil
       = Some (example_Token ''a+'' 2800)
   \<and> calls (snd (serve example_env (GET ''/refresh'') example_connected))
       = [Event (Call_Refresh (Some (example_Token ''a'' 1000))) Returned]"
proof -
  have p: "Path (GET ''/refresh'') = ''/refresh''" by (simp add: GET_def)
  have n: "repo example_connected uuid_Nil = Some (example_Token ''a'' 1000)"
    by (simp add: example_connected_def)
  have c: "calls example_connected = []" by (simp add: example_connected_def)
  have f: "Refresh example_env (Some (example_Token ''a'' 1000)) (world example_connected)
       = (Ok (example_Token ''a+'' 2800), ())"
    by (simp add: example_env_def example_Refresh_def example_Token_def)
  from refresh_persists_and_redirects [OF p n, of example_env] f c p n
  show ?thesis by (simp add: StatusFound_def)
qed


text \<open>
  C1. When the token of the session is expired, a request through the transport is
  this and nothing else: \<open>Refresh\<close> is applied once, to the token of the session, before
  anything is sent. When it returns a new token and the store holds a session of the
  user, the new token is persisted with \<open>UpdateSession\<close> under that user, then the
  request is sent once, with the access token of the new token, on the platform as the
  refresh left it; the response is what the underlying transport returned and the store
  holds the new token when the request completes. When \<open>Refresh\<close> fails, or there is no
  session to update, nothing is sent and the store is as it was. And the handlers leave
  refreshing to the transport: serving any request but the one to \<open>/refresh\<close> makes no
  call of \<open>Provider.Refresh\<close>.
\<close>

theorem transport_refreshes_once_before_sending:
  "(Token session = Some token \<longrightarrow> expired now token \<longrightarrow>
      RoundTrip refresh send now session rq (rp, w) =
        (case refresh (Some token) w of
           (Ok newToken, w1) \<Rightarrow>
             (case rp (UserID session) of
                Some old \<Rightarrow>
                  (case send (AccessToken newToken) rq w1 of
                     (res, w2) \<Rightarrow>
                       ((res, (rp(UserID session \<mapsto> newToken), w2)),
                        [Refreshed token, Persisted (UserID session) newToken,
                         Sent rq (AccessToken newToken)]))
              | None \<Rightarrow>
                  ((Err (NotFoundError (UserID session)), (rp, w1)), [Refreshed token]))
         | (Err e, w1) \<Rightarrow> ((Err e, (rp, w1)), [Refreshed token])
         | (Panic p, w1) \<Rightarrow> ((Panic p, (rp, w1)), [Refreshed token]))
      \<and> length (filter is_Refreshed
            (snd (RoundTrip refresh send now session rq (rp, w)))) = 1
      \<and> length (filter is_Refreshed
            (before_send (snd (RoundTrip refresh send now session rq (rp, w))))) = 1)
   \<and> (Path r \<noteq> ''/refresh'' \<longrightarrow> never_refreshes s (serve env r s))"
proof (intro conjI impI)
  assume t: "Token session = Some token" and e: "expired now token"
  show eq: "RoundTrip refresh send now session rq (rp, w) =
        (case refresh (Some token) w of
           (Ok newToken, w1) \<Rightarrow>
             (case rp (UserID session) of
                Some old \<Rightarrow>
                  (case send (AccessToken newToken) rq w1 of
                     (res, w2) \<Rightarrow>
                       ((res, (rp(UserID session \<mapsto> newToken), w2)),
                        [Refreshed token, Persisted (UserID session) newToken,
                         Sent rq (AccessToken newToken)]))
              | None \<Rightarrow>
                  ((Err (NotFoundError (UserID session)), (rp, w1)), [Refreshed token]))
         | (Err e, w1) \<Rightarrow> ((Err e, (rp, w1)), [Refreshed token])
         | (Panic p, w1) \<Rightarrow> ((Panic p, (rp, w1)), [Refreshed token]))"
    using t e
    by (simp add: RoundTrip_def UpdateSession_def
          split: prod.splits result.splits option.splits)
  show "length (filter is_Refreshed
          (snd (RoundTrip refresh send now session rq (rp, w)))) = 1"
    by (simp add: eq split: prod.splits result.splits option.splits)
  show "length (filter is_Refreshed
          (before_send (snd (RoundTrip refresh send now session rq (rp, w))))) = 1"
    by (simp add: eq before_send_def split: prod.splits result.splits option.splits)
next
  assume "Path r \<noteq> ''/refresh''"
  then show "never_refreshes s (serve env r s)" by (rule serve_never_refreshes)
qed

theorem transport_refreshes_once_before_sending_witness:
  "Token example_session = Some (example_Token ''a'' 1000)
   \<and> expired 2000 (example_Token ''a'' 1000)
   \<and> RoundTrip example_Refresh example_send 2000 example_session ''GET /connections''
        (example_store, ())
       = ((Ok ''a+ GET /connections'',
           (example_store(uuid_Nil \<mapsto> example_Token ''a+'' 2800), ())),
          [Refreshed (example_Token ''a'' 1000),
           Persisted uuid_Nil (example_Token ''a+'' 2800),
           Sent ''GET /connections'' ''a+''])
   \<and> RoundTrip example_Refresh example_send 2000 example_session ''GET /connections''
        (Map.empty, ())
       = ((Err (NotFoundError uuid_Nil), (Map.empty, ())),
          [Refreshed (example_Token ''a'' 1000)])
   \<and> Path (GET ''/contacts'') \<noteq> ''/refresh''
   \<and> never_refreshes example_connected (serve example_env (GET ''/contacts'') example_connected)"
proof -
  have t: "Token example_session = Some (example_Token ''a'' 1000)"
    by (simp add: example_session_def)
  have u: "UserID example_session = uuid_Nil"
    by (simp add: example_session_def)
  have e: "expired 2000 (example_Token ''a'' 1000)"
    by (simp add: expired_def example_Token_def)
  have p: "Path (GET ''/contacts'') \<noteq> ''/refresh''" by (simp add: GET_def)
  have f: "example_Refresh (Some (example_Token ''a'' 1000)) () = (Ok (example_Token ''a+'' 2800), ())"
    by (simp add: example_Refresh_def example_Token_def)
  have a: "AccessToken (example_Token ''a+'' 2800) = ''a+''"
    by (simp add: example_Token_def)
  have st: "example_store uuid_Nil = Some (example_Token ''a'' 1000)"
    by (simp add: example_store_def)
  note T = transport_refreshes_once_before_sending
    [where session = example_session and token = "example_Token ''a'' 1000" and now = 2000
       and refresh = example_Refresh and send = example_send and rq = "''GET /connections''"
       and w = "()" and r = "GET ''/contacts''" and s = example_connected and env = example_env]
  from T [where rp = example_store] t e
  have r1: "RoundTrip example_Refresh example_send 2000 example_session ''GET /connections''
        (example_store, ())
       = ((Ok ''a+ GET /connections'',
           (example_store(uuid_Nil \<mapsto> example_Token ''a+'' 2800), ())),
          [Refreshed (example_Token ''a'' 1000),
           Persisted uuid_Nil (example_Token ''a+'' 2800),
           Sent ''GET /connections'' ''a+''])"
    by (simp add: f u a st example_send_def)
  from T [where rp = Map.empty] t e
  have r2: "RoundTrip example_Refresh example_send 2000 example_session ''GET /connections''
        (Map.empty, ())
       = ((Err (NotFoundError uuid_Nil), (Map.empty, ())),
          [Refreshed (example_Token ''a'' 1000)])"
    by (simp add: f u)
  from T [where rp = example_store] p
  have "never_refreshes example_connected (serve example_env (GET ''/contacts'') example_connected)"
    by blast
  with t e p r1 r2 show ?thesis by simp
qed


end
